theory Spec2Isabelle
  imports Complex_Main
begin

section \<open>Racing demo: vectors, car classes and cars\<close>

text \<open>
  Python floats are modelled as real numbers, and \<open>math.sqrt\<close>, \<open>math.cos\<close>,
  \<open>math.sin\<close>, \<open>math.atan2\<close> as the real functions they approximate.
  Python ints are \<open>int\<close>. An exception is a value of type \<open>py_error\<close>.
\<close>

datatype py_error = IndexError | AttributeError | TypeError | EOFError | ValueError | SystemExit

text \<open>\<open>Vector3\<close>: the dataclass with fields x, y, z.\<close>

record Vector3 =
  vec_x :: real
  vec_y :: real
  vec_z :: real

definition distance_to :: "Vector3 \<Rightarrow> Vector3 \<Rightarrow> real" where
  "distance_to self other =
     (let dx = vec_x other - vec_x self;
          dy = vec_y other - vec_y self;
          dz = vec_z other - vec_z self
      in sqrt (dx * dx + dy * dy + dz * dz))"

datatype CarClass = ECONOMY | SPORTS | SUPERCAR | MUSCLE

record CarStats =
  stat_max_speed :: real
  stat_acceleration :: real
  stat_handling :: real
  stat_color :: "nat \<times> nat \<times> nat"

fun car_class_value :: "CarClass \<Rightarrow> CarStats" where
  "car_class_value ECONOMY =
     \<lparr>stat_max_speed = 200, stat_acceleration = 7, stat_handling = 95 / 100,
      stat_color = (100, 150, 255)\<rparr>"
| "car_class_value SPORTS =
     \<lparr>stat_max_speed = 240, stat_acceleration = 12, stat_handling = 88 / 100,
      stat_color = (255, 80, 100)\<rparr>"
| "car_class_value SUPERCAR =
     \<lparr>stat_max_speed = 300, stat_acceleration = 16, stat_handling = 80 / 100,
      stat_color = (255, 200, 50)\<rparr>"
| "car_class_value MUSCLE =
     \<lparr>stat_max_speed = 260, stat_acceleration = 14, stat_handling = 75 / 100,
      stat_color = (200, 80, 255)\<rparr>"

record Car3D =
  pos :: Vector3
  velocity :: Vector3
  angle_yaw :: real
  car_class :: CarClass
  is_player :: bool
  speed :: real
  lap_count :: int
  last_checkpoint :: int
  finished :: bool
  distance_traveled :: real
  is_reversing :: bool
  max_speed :: real
  acceleration :: real
  handling :: real
  color :: "nat \<times> nat \<times> nat"

text \<open>\<open>Car3D.__init__\<close>.\<close>

definition Car3D_init :: "real \<Rightarrow> real \<Rightarrow> real \<Rightarrow> CarClass \<Rightarrow> bool \<Rightarrow> Car3D" where
  "Car3D_init px py pz cls player =
     (let stats = car_class_value cls in
      \<lparr>pos = \<lparr>vec_x = px, vec_y = py, vec_z = pz\<rparr>,
       velocity = \<lparr>vec_x = 0, vec_y = 0, vec_z = 0\<rparr>,
       angle_yaw = 0,
       car_class = cls,
       is_player = player,
       speed = 0,
       lap_count = 0,
       last_checkpoint = 0,
       finished = False,
       distance_traveled = 0,
       is_reversing = False,
       max_speed = stat_max_speed stats,
       acceleration = stat_acceleration stats,
       handling = stat_handling stats,
       color = stat_color stats\<rparr>)"

text \<open>The pressed-key table, restricted to the keys the car reads.\<close>

record Keys =
  K_w :: bool
  K_UP :: bool
  K_s :: bool
  K_DOWN :: bool
  K_a :: bool
  K_LEFT :: bool
  K_d :: bool
  K_RIGHT :: bool
  K_LSHIFT :: bool
  K_RSHIFT :: bool

definition radians :: "real \<Rightarrow> real" where
  "radians d = d * pi / 180"

definition degrees :: "real \<Rightarrow> real" where
  "degrees r = r * 180 / pi"

text \<open>Python's float \<open>a % m\<close> for a positive modulus: the result lies in [0, m).\<close>

definition py_fmod :: "real \<Rightarrow> real \<Rightarrow> real" where
  "py_fmod a m = a - m * of_int \<lfloor>a / m\<rfloor>"

text \<open>\<open>math.atan2(y, x)\<close> on the reals.\<close>

definition atan2 :: "real \<Rightarrow> real \<Rightarrow> real" where
  "atan2 y x =
     (if 0 < x then arctan (y / x)
      else if x < 0 \<and> 0 \<le> y then arctan (y / x) + pi
      else if x < 0 then arctan (y / x) - pi
      else if 0 < y then pi / 2
      else if y < 0 then - (pi / 2)
      else 0)"

subsection \<open>Player input\<close>

text \<open>The steering amount of one frame: \<open>5.0 * (self.speed / max(self.max_speed, 1))\<close>.\<close>

definition turn_amount :: "Car3D \<Rightarrow> real" where
  "turn_amount c = 5 * (speed c / max (max_speed c) 1)"

text \<open>
  Three statement pairs recur in the car's code. \<open>add_thrust forward right k\<close> is
  \<open>self.velocity.x += forward * self.acceleration * k\<close> with the same for z and
  \<open>right\<close>; \<open>scale_velocity r\<close> is \<open>self.velocity.x *= r\<close> with the same for z;
  \<open>turn d\<close> is \<open>self.angle_yaw += d\<close>.
\<close>

definition add_thrust :: "real \<Rightarrow> real \<Rightarrow> real \<Rightarrow> Car3D \<Rightarrow> Car3D" where
  "add_thrust forward right k c =
     c\<lparr>velocity := (velocity c)\<lparr>vec_x := vec_x (velocity c) + forward * acceleration c * k,
                                 vec_z := vec_z (velocity c) + right * acceleration c * k\<rparr>\<rparr>"

definition scale_velocity :: "real \<Rightarrow> Car3D \<Rightarrow> Car3D" where
  "scale_velocity r c =
     c\<lparr>velocity := (velocity c)\<lparr>vec_x := vec_x (velocity c) * r,
                                 vec_z := vec_z (velocity c) * r\<rparr>\<rparr>"

definition turn :: "real \<Rightarrow> Car3D \<Rightarrow> Car3D" where
  "turn d c = c\<lparr>angle_yaw := angle_yaw c + d\<rparr>"

text \<open>The speed cap at the end of the player and the AI branch.\<close>

definition cap_speed :: "Car3D \<Rightarrow> Car3D" where
  "cap_speed c =
     (if speed c > max_speed c then
        (let ratio = max_speed c / max (speed c) (1 / 10) in scale_velocity ratio c)
      else c)"

definition update_player_input :: "Keys \<Rightarrow> real \<Rightarrow> Car3D \<Rightarrow> Car3D" where
  "update_player_input keys dt c0 =
     (let forward = cos (radians (angle_yaw c0));
          right = sin (radians (angle_yaw c0));
          c1 = c0\<lparr>is_reversing := K_LSHIFT keys \<or> K_RSHIFT keys\<rparr>;
          c2 = (if K_w keys \<or> K_UP keys then add_thrust forward right 50 c1 else c1);
          c3 = (if K_s keys \<or> K_DOWN keys then
                  (if is_reversing c2 then add_thrust forward right (- 30) c2
                   else scale_velocity (80 / 100) c2)
                else c2);
          c4 = (if K_a keys \<or> K_LEFT keys then turn (- turn_amount c3) c3 else c3);
          c5 = (if K_d keys \<or> K_RIGHT keys then turn (turn_amount c4) c4 else c4);
          c6 = c5\<lparr>angle_yaw := py_fmod (angle_yaw c5) 360\<rparr>
      in cap_speed c6)"

subsection \<open>AI steering\<close>

text \<open>
  Subscription \<open>xs[i]\<close> of a list: indices from \<open>-len(xs)\<close> to \<open>len(xs) - 1\<close> are
  valid, the negative ones addressing the list from its end; any other raises IndexError.
\<close>

definition py_index :: "'a list \<Rightarrow> int \<Rightarrow> py_error + 'a" where
  "py_index xs i =
     (if 0 \<le> i \<and> i < int (length xs) then Inr (xs ! nat i)
      else if - int (length xs) \<le> i \<and> i < 0 then Inr (xs ! nat (int (length xs) + i))
      else Inl IndexError)"

text \<open>\<open>while angle_diff > 180: angle_diff -= 360\<close>\<close>

function wrap_above :: "real \<Rightarrow> real" where
  "wrap_above a = (if a > 180 then wrap_above (a - 360) else a)"
  by pat_completeness auto
termination
proof (relation "measure (\<lambda>a. nat \<lceil>(a - 180) / 360\<rceil>)")
  show "wf (measure (\<lambda>a. nat \<lceil>(a - 180) / 360\<rceil>))" by simp
next
  fix a :: real
  assume gt: "180 < a"
  have eq: "(a - 360 - 180) / 360 = (a - 180) / 360 - 1" by (simp add: field_simps)
  have pos: "0 < \<lceil>(a - 180) / 360\<rceil>" using gt by (simp add: ceiling_less_iff)
  have "\<lceil>(a - 360 - 180) / 360\<rceil> = \<lceil>(a - 180) / 360\<rceil> - 1"
    unfolding eq by simp
  with pos show "(a - 360, a) \<in> measure (\<lambda>a. nat \<lceil>(a - 180) / 360\<rceil>)"
    by simp
qed

declare wrap_above.simps [simp del]

text \<open>\<open>while angle_diff < -180: angle_diff += 360\<close>\<close>

function wrap_below :: "real \<Rightarrow> real" where
  "wrap_below a = (if a < - 180 then wrap_below (a + 360) else a)"
  by pat_completeness auto
termination
proof (relation "measure (\<lambda>a. nat \<lceil>(- 180 - a) / 360\<rceil>)")
  show "wf (measure (\<lambda>a. nat \<lceil>(- 180 - a) / 360\<rceil>))" by simp
next
  fix a :: real
  assume lt: "a < - 180"
  have eq: "(- 180 - (a + 360)) / 360 = (- 180 - a) / 360 - 1" by (simp add: field_simps)
  have pos: "0 < \<lceil>(- 180 - a) / 360\<rceil>" using lt by (simp add: ceiling_less_iff)
  have "\<lceil>(- 180 - (a + 360)) / 360\<rceil> = \<lceil>(- 180 - a) / 360\<rceil> - 1"
    unfolding eq by simp
  with pos show "(a + 360, a) \<in> measure (\<lambda>a. nat \<lceil>(- 180 - a) / 360\<rceil>)"
    by simp
qed

declare wrap_below.simps [simp del]

definition update_ai :: "Vector3 list \<Rightarrow> real \<Rightarrow> Car3D \<Rightarrow> py_error + Car3D" where
  "update_ai track_points dt c0 =
     (if length track_points < 2 then Inr c0
      else
        (let current_checkpoint = min (last_checkpoint c0 + 8) (int (length track_points) - 1)
         in case py_index track_points current_checkpoint of
              Inl e \<Rightarrow> Inl e
            | Inr target \<Rightarrow>
               (let dx = vec_x target - vec_x (pos c0);
                    dz = vec_z target - vec_z (pos c0);
                    target_angle = degrees (atan2 dz dx);
                    angle_diff = wrap_below (wrap_above (target_angle - angle_yaw c0));
                    c1 = turn (angle_diff * (8 / 100)) c0;
                    c2 = c1\<lparr>angle_yaw := py_fmod (angle_yaw c1) 360\<rparr>;
                    forward = cos (radians (angle_yaw c2));
                    right = sin (radians (angle_yaw c2));
                    c3 = (if speed c2 < max_speed c2 * (85 / 100)
                          then add_thrust forward right 30 c2 else c2)
                in Inr (cap_speed c3))))"

subsection \<open>Track height and lap progress\<close>

text \<open>
  The scan of \<open>update_track_height\<close>; \<open>closest_dist\<close> starts at infinity, which is
  \<open>None\<close> here.
\<close>

fun height_scan :: "Vector3 \<Rightarrow> Vector3 list \<Rightarrow> real option \<Rightarrow> real \<Rightarrow> real" where
  "height_scan p [] closest_dist closest_height = closest_height"
| "height_scan p (point # rest) closest_dist closest_height =
     (let dx = vec_x point - vec_x p;
          dz = vec_z point - vec_z p;
          dist = sqrt (dx * dx + dz * dz)
      in if (case closest_dist of None \<Rightarrow> True | Some d \<Rightarrow> dist < d)
         then height_scan p rest (Some dist) (vec_y point)
         else height_scan p rest closest_dist closest_height)"

definition update_track_height :: "Vector3 list \<Rightarrow> Car3D \<Rightarrow> Car3D" where
  "update_track_height track_points c =
     (if track_points = [] then c
      else
        (let closest_height = height_scan (pos c) track_points None (vec_y (pos c))
         in c\<lparr>pos := (pos c)\<lparr>vec_y := vec_y (pos c)
                                   + (closest_height - vec_y (pos c)) * (2 / 10)\<rparr>\<rparr>))"

text \<open>
  The scan of \<open>check_checkpoint\<close> over \<open>enumerate(track_points)\<close>: \<open>i\<close> is the index
  of the head of the remaining list.
\<close>

fun closest_scan :: "Vector3 \<Rightarrow> Vector3 list \<Rightarrow> int \<Rightarrow> real option \<Rightarrow> int \<Rightarrow> int" where
  "closest_scan p [] i closest_dist closest_idx = closest_idx"
| "closest_scan p (point # rest) i closest_dist closest_idx =
     (let dist = distance_to p point
      in if (case closest_dist of None \<Rightarrow> True | Some d \<Rightarrow> dist < d)
         then closest_scan p rest (i + 1) (Some dist) i
         else closest_scan p rest (i + 1) closest_dist closest_idx)"

definition closest_index :: "Vector3 list \<Rightarrow> Vector3 \<Rightarrow> int" where
  "closest_index track_points p = closest_scan p track_points 0 None 0"

definition check_checkpoint :: "Vector3 list \<Rightarrow> Car3D \<Rightarrow> Car3D" where
  "check_checkpoint track_points c =
     (if length track_points = 0 then c
      else
        (let closest_idx = closest_index track_points (pos c)
         in if closest_idx > last_checkpoint c then
              c\<lparr>last_checkpoint := closest_idx\<rparr>
            else if closest_idx < last_checkpoint c \<and> closest_idx < 20 then
              (let c1 = c\<lparr>lap_count := lap_count c + 1\<rparr>
               in if lap_count c1 \<ge> 3 then c1\<lparr>finished := True\<rparr> else c1)
            else c))"

subsection \<open>One frame of a car\<close>

text \<open>
  \<open>Car3D.update\<close> in two parts. \<open>control\<close> is its first statement, the choice between
  the player's input and the AI; \<open>keys\<close> is \<open>None\<close> for the default argument, and a
  key table is never empty, so \<open>Some\<close> is truthy. \<open>integrate\<close> is the rest: friction,
  speed, position, track height, lap progress and the distance travelled.
\<close>

definition control :: "Vector3 list \<Rightarrow> Keys option \<Rightarrow> real \<Rightarrow> Car3D \<Rightarrow> py_error + Car3D" where
  "control track_points keys dt c0 =
     (case keys of
        Some ks \<Rightarrow> if is_player c0 then Inr (update_player_input ks dt c0)
                   else update_ai track_points dt c0
      | None \<Rightarrow> update_ai track_points dt c0)"

definition integrate :: "Vector3 list \<Rightarrow> real \<Rightarrow> Car3D \<Rightarrow> Car3D" where
  "integrate track_points dt c1 =
     (let c2 = scale_velocity (97 / 100) c1;
          c3 = c2\<lparr>speed := sqrt ((vec_x (velocity c2))\<^sup>2 + (vec_z (velocity c2))\<^sup>2)\<rparr>;
          c4 = c3\<lparr>pos := (pos c3)\<lparr>vec_x := vec_x (pos c3) + vec_x (velocity c3) * dt,
                                   vec_z := vec_z (pos c3) + vec_z (velocity c3) * dt\<rparr>\<rparr>;
          c5 = update_track_height track_points c4;
          c6 = check_checkpoint track_points c5
      in c6\<lparr>distance_traveled := distance_traveled c6 + speed c6 * dt\<rparr>)"

definition update :: "Vector3 list \<Rightarrow> Keys option \<Rightarrow> real \<Rightarrow> Car3D \<Rightarrow> py_error + Car3D" where
  "update track_points keys dt c0 =
     (if finished c0 then Inr c0
      else
        (case control track_points keys dt c0 of
           Inl e \<Rightarrow> Inl e
         | Inr c1 \<Rightarrow> Inr (integrate track_points dt c1)))"

section \<open>Racing demo: track generation\<close>

record Track3D =
  points :: "Vector3 list"
  left_barriers :: "Vector3 list"
  right_barriers :: "Vector3 list"

definition segments :: nat where
  "segments = 200"

text \<open>The body of the first loop of \<open>generate_track\<close>: the point of step \<open>i\<close>.\<close>

definition track_point :: "nat \<Rightarrow> Vector3" where
  "track_point i =
     (let center_x = 0; center_z = 0;
          progress = real i / real segments;
          angle = progress * 4 * pi;
          base_radius_x = 400;
          base_radius_z = 300;
          px = center_x + base_radius_x * cos angle * (1 + (3 / 10) * sin (angle * 2));
          pz = center_z + base_radius_z * sin angle * (1 + (2 / 10) * cos (angle * 3));
          py = 50 + 40 * sin (angle * 2) + 25 * cos (angle * 3) + 15 * sin (angle * 5)
      in \<lparr>vec_x = px, vec_y = py, vec_z = pz\<rparr>)"

text \<open>\<open>list.index\<close>: the first position of an equal element, ValueError when absent.\<close>

fun index_of :: "'a list \<Rightarrow> 'a \<Rightarrow> py_error + nat" where
  "index_of [] v = Inl ValueError"
| "index_of (u # us) v =
     (if u = v then Inr 0
      else (case index_of us v of Inl e \<Rightarrow> Inl e | Inr k \<Rightarrow> Inr (Suc k)))"

definition barrier_offset :: real where
  "barrier_offset = 100"

text \<open>
  The second loop of \<open>generate_track\<close>: \<open>all\<close> is \<open>self.points\<close>, the second argument
  is what the iteration has left to visit. The track object may carry any further
  attributes; the loop does not read them.
\<close>

fun barrier_loop ::
  "Vector3 list \<Rightarrow> Vector3 list \<Rightarrow> 'a Track3D_scheme \<Rightarrow> py_error + 'a Track3D_scheme" where
  "barrier_loop all [] t = Inr t"
| "barrier_loop all (point # rest) t =
     (case index_of all point of
        Inl e \<Rightarrow> Inl e
      | Inr idx \<Rightarrow>
         (case py_index all (int ((idx + 1) mod length all)) of
            Inl e \<Rightarrow> Inl e
          | Inr next_point \<Rightarrow>
             (let dx = vec_x next_point - vec_x point;
                  dz = vec_z next_point - vec_z point;
                  dist = sqrt (dx * dx + dz * dz)
              in if dist > 0 then
                   (let perp_x = - dz / dist;
                        perp_z = dx / dist;
                        left_x = vec_x point + perp_x * barrier_offset;
                        left_z = vec_z point + perp_z * barrier_offset;
                        right_x = vec_x point - perp_x * barrier_offset;
                        right_z = vec_z point - perp_z * barrier_offset
                    in barrier_loop all rest
                         (t\<lparr>left_barriers := left_barriers t
                               @ [\<lparr>vec_x = left_x, vec_y = vec_y point, vec_z = left_z\<rparr>],
                            right_barriers := right_barriers t
                               @ [\<lparr>vec_x = right_x, vec_y = vec_y point, vec_z = right_z\<rparr>]\<rparr>))
                 else barrier_loop all rest t)))"

definition generate_track :: "'a Track3D_scheme \<Rightarrow> py_error + 'a Track3D_scheme" where
  "generate_track t =
     (let t1 = t\<lparr>points := foldl (\<lambda>ps i. ps @ [track_point i]) (points t) [0..<segments]\<rparr>
      in barrier_loop (points t1) (points t1) t1)"

text \<open>\<open>Track3D.__init__\<close>.\<close>

definition Track3D_init :: "py_error + Track3D" where
  "Track3D_init = generate_track \<lparr>points = [], left_barriers = [], right_barriers = []\<rparr>"

section \<open>Racing demo: the game and its modes\<close>

text \<open>
  \<open>player\<close> is \<open>None\<close> while \<open>setup_game\<close> has not set the attributes \<open>player\<close>,
  \<open>ai_cars\<close> and \<open>all_cars\<close>. \<open>all_cars\<close> is always \<open>[player] + ai_cars\<close>, the same
  objects, so it is not a field of its own.
\<close>

record Game3D =
  running :: bool
  state :: string
  track :: Track3D
  player :: "Car3D option"
  ai_cars :: "Car3D list"

datatype key = K_SPACE | K_ESCAPE | K_OTHER

datatype event = QUIT | KEYDOWN key | OTHER_EVENT

text \<open>The loop over \<open>enumerate(ai_spawn_indices)\<close> in \<open>setup_game\<close>.\<close>

fun spawn_ai :: "Vector3 list \<Rightarrow> (nat \<times> nat) list \<Rightarrow> Car3D list \<Rightarrow> py_error + Car3D list" where
  "spawn_ai pts [] cars = Inr cars"
| "spawn_ai pts ((idx, spawn_idx) # rest) cars =
     (if spawn_idx < length pts then
        (case py_index pts (int spawn_idx) of
           Inl e \<Rightarrow> Inl e
         | Inr spawn_point \<Rightarrow>
            (case py_index [SUPERCAR, MUSCLE, ECONOMY] (int idx) of
               Inl e \<Rightarrow> Inl e
             | Inr cls \<Rightarrow>
                spawn_ai pts rest
                  (cars @ [Car3D_init (vec_x spawn_point) (vec_y spawn_point)
                             (vec_z spawn_point) cls False])))
      else spawn_ai pts rest cars)"

definition setup_game :: "Game3D \<Rightarrow> py_error + Game3D" where
  "setup_game g =
     (if length (points (track g)) > 0 then
        (case py_index (points (track g)) 0 of
           Inl e \<Rightarrow> Inl e
         | Inr start_point \<Rightarrow>
            (case spawn_ai (points (track g)) [(0, 10), (1, 20), (2, 30)] [] of
               Inl e \<Rightarrow> Inl e
             | Inr cars \<Rightarrow>
                Inr (g\<lparr>player := Some (Car3D_init (vec_x start_point) (vec_y start_point)
                                          (vec_z start_point) SPORTS True),
                       ai_cars := cars\<rparr>)))
      else Inr g)"

text \<open>\<open>Game3D.__init__\<close>, without the window, the clock and the fonts.\<close>

definition Game3D_init :: "py_error + Game3D" where
  "Game3D_init =
     (case Track3D_init of
        Inl e \<Rightarrow> Inl e
      | Inr t \<Rightarrow> setup_game \<lparr>running = True, state = ''menu'', track = t,
                              player = None, ai_cars = []\<rparr>)"

text \<open>The body of the loop of \<open>handle_events\<close>, for one event.\<close>

definition handle_event :: "event \<Rightarrow> Game3D \<Rightarrow> py_error + Game3D" where
  "handle_event ev g =
     (case ev of
        QUIT \<Rightarrow> Inr (g\<lparr>running := False\<rparr>)
      | KEYDOWN k \<Rightarrow>
          (if state g = ''menu'' \<and> k = K_SPACE then setup_game (g\<lparr>state := ''racing''\<rparr>)
           else if state g = ''finish'' \<and> k = K_SPACE then Inr (g\<lparr>state := ''menu''\<rparr>)
           else if k = K_ESCAPE then Inr (g\<lparr>running := False\<rparr>)
           else Inr g)
      | OTHER_EVENT \<Rightarrow> Inr g)"

fun handle_events :: "event list \<Rightarrow> Game3D \<Rightarrow> py_error + Game3D" where
  "handle_events [] g = Inr g"
| "handle_events (ev # evs) g =
     (case handle_event ev g of Inl e \<Rightarrow> Inl e | Inr g1 \<Rightarrow> handle_events evs g1)"

text \<open>The AI part of the loop over \<open>all_cars\<close> in \<open>Game3D.update\<close>.\<close>

fun update_ai_cars :: "Vector3 list \<Rightarrow> real \<Rightarrow> Car3D list \<Rightarrow> py_error + Car3D list" where
  "update_ai_cars pts dt [] = Inr []"
| "update_ai_cars pts dt (car # rest) =
     (case update pts None dt car of
        Inl e \<Rightarrow> Inl e
      | Inr car1 \<Rightarrow>
         (case update_ai_cars pts dt rest of
            Inl e \<Rightarrow> Inl e
          | Inr rest1 \<Rightarrow> Inr (car1 # rest1)))"

text \<open>\<open>Game3D.update\<close>; \<open>keys\<close> is what \<open>pygame.key.get_pressed()\<close> returns.\<close>

definition Game3D_update :: "Keys \<Rightarrow> real \<Rightarrow> Game3D \<Rightarrow> py_error + Game3D" where
  "Game3D_update keys dt g =
     (if state g = ''racing'' then
        (case player g of
           None \<Rightarrow> Inl AttributeError
         | Some p \<Rightarrow>
            (case update (points (track g)) (Some keys) dt p of
               Inl e \<Rightarrow> Inl e
             | Inr p1 \<Rightarrow>
                (case update_ai_cars (points (track g)) dt (ai_cars g) of
                   Inl e \<Rightarrow> Inl e
                 | Inr cars1 \<Rightarrow>
                    (let g1 = g\<lparr>player := Some p1, ai_cars := cars1\<rparr>
                     in if finished p1 then Inr (g1\<lparr>state := ''finish''\<rparr>) else Inr g1))))
      else Inr g)"


section \<open>Racing demo: perspective projection\<close>

definition SCREEN_WIDTH :: real where
  "SCREEN_WIDTH = 1400"

definition SCREEN_HEIGHT :: real where
  "SCREEN_HEIGHT = 900"

text \<open>Python's \<open>int(x)\<close> on a float: truncation towards zero.\<close>

definition py_int :: "real \<Rightarrow> int" where
  "py_int r = (if 0 \<le> r then \<lfloor>r\<rfloor> else \<lceil>r\<rceil>)"

text \<open>The depth of a point after the rotation by the camera angle.\<close>

definition rotated_depth :: "real \<Rightarrow> real \<Rightarrow> real \<Rightarrow> real \<Rightarrow> real \<Rightarrow> real" where
  "rotated_depth px pz cam_x cam_z cam_angle =
     (px - cam_x) * sin (radians cam_angle) + (pz - cam_z) * cos (radians cam_angle)"

definition project_3d_to_2d ::
  "real \<Rightarrow> real \<Rightarrow> real \<Rightarrow> real \<Rightarrow> real \<Rightarrow> real \<Rightarrow> real \<Rightarrow> (int \<times> int) option" where
  "project_3d_to_2d px py pz cam_x cam_y cam_z cam_angle =
     (let dx = px - cam_x;
          dz = pz - cam_z;
          dy = py - cam_y;
          angle_rad = radians cam_angle;
          cos_a = cos angle_rad;
          sin_a = sin angle_rad;
          rotated_x = dx * cos_a - dz * sin_a;
          rotated_z = dx * sin_a + dz * cos_a
      in if rotated_z \<le> 1 / 2 then None
         else
           (let fov = 60;
                focal_length = (SCREEN_WIDTH / 2) / tan (radians (fov / 2));
                screen_x = (SCREEN_WIDTH / 2) + (rotated_x / rotated_z) * focal_length;
                screen_y = (SCREEN_HEIGHT / 2) - (dy / rotated_z) * focal_length
            in if 0 \<le> screen_x \<and> screen_x < SCREEN_WIDTH
                  \<and> 0 \<le> screen_y \<and> screen_y < SCREEN_HEIGHT
               then Some (py_int screen_x, py_int screen_y)
               else None))"

text \<open>
  The intermediate quantities of \<open>project_3d_to_2d\<close>, by the names they have in its
  body, as functions of the arguments.
\<close>

definition focal_length :: real where
  "focal_length = (SCREEN_WIDTH / 2) / tan (radians (60 / 2))"

definition rotated_side :: "real \<Rightarrow> real \<Rightarrow> real \<Rightarrow> real \<Rightarrow> real \<Rightarrow> real" where
  "rotated_side px pz cam_x cam_z cam_angle =
     (px - cam_x) * cos (radians cam_angle) - (pz - cam_z) * sin (radians cam_angle)"

definition screen_x :: "real \<Rightarrow> real \<Rightarrow> real \<Rightarrow> real \<Rightarrow> real \<Rightarrow> real" where
  "screen_x px pz cam_x cam_z cam_angle =
     (SCREEN_WIDTH / 2)
       + (rotated_side px pz cam_x cam_z cam_angle / rotated_depth px pz cam_x cam_z cam_angle)
         * focal_length"

definition screen_y :: "real \<Rightarrow> real \<Rightarrow> real \<Rightarrow> real \<Rightarrow> real \<Rightarrow> real \<Rightarrow> real \<Rightarrow> real" where
  "screen_y px py pz cam_x cam_y cam_z cam_angle =
     (SCREEN_HEIGHT / 2)
       - ((py - cam_y) / rotated_depth px pz cam_x cam_z cam_angle) * focal_length"

definition on_screen :: "real \<Rightarrow> real \<Rightarrow> bool" where
  "on_screen sx sy = (0 \<le> sx \<and> sx < SCREEN_WIDTH \<and> 0 \<le> sy \<and> sy < SCREEN_HEIGHT)"

section \<open>Flappy game\<close>

definition FLAPPY_SCREEN_WIDTH :: real where
  "FLAPPY_SCREEN_WIDTH = 800"

definition FLAPPY_SCREEN_HEIGHT :: real where
  "FLAPPY_SCREEN_HEIGHT = 600"

definition GRAVITY :: real where
  "GRAVITY = 1 / 2"

definition FLAP_STRENGTH :: real where
  "FLAP_STRENGTH = - 12"

definition PLAYER_SIZE :: real where
  "PLAYER_SIZE = 60"

text \<open>A pipe: the dictionary with the keys x, top_height, gap and passed.\<close>

record Pipe =
  pipe_x :: real
  top_height :: int
  gap :: int
  passed :: bool

record Game =
  player_x :: real
  player_y :: real
  player_velocity :: real
  pipes :: "Pipe list"
  score :: int
  game_over :: bool
  pipes_passed :: int
  base_speed :: real
  current_speed :: real
  base_gap :: int
  current_gap :: int

text \<open>
  \<open>spawn_pipe\<close>; \<open>r\<close> is the value \<open>random.randint\<close> draws, which raises ValueError
  on an empty range.
\<close>

definition spawn_pipe :: "int \<Rightarrow> Game \<Rightarrow> py_error + Game" where
  "spawn_pipe r g0 =
     (let g1 = g0\<lparr>current_speed := base_speed g0 + of_int (pipes_passed g0) * (1 / 2)\<rparr>;
          g2 = g1\<lparr>current_gap := max 100 (base_gap g1 - pipes_passed g1 * 5)\<rparr>
      in if 80 \<le> 600 - current_gap g2 - 80 then
           Inr (g2\<lparr>pipes := pipes g2 @
                   [\<lparr>pipe_x = FLAPPY_SCREEN_WIDTH, top_height = r,
                     gap = current_gap g2, passed = False\<rparr>]\<rparr>)
         else Inl ValueError)"

definition reset_game :: "int \<Rightarrow> py_error + Game" where
  "reset_game r =
     spawn_pipe r
       \<lparr>player_x = 100, player_y = 300, player_velocity = 0, pipes = [], score = 0,
        game_over = False, pipes_passed = 0, base_speed = 4, current_speed = 4,
        base_gap = 200, current_gap = 200\<rparr>"

text \<open>
  The first loop of \<open>Game.update\<close>: every pipe moves left and is counted once it is
  behind the player. The result is the pipes, the score and the number of pipes passed.
\<close>

fun move_pipes :: "real \<Rightarrow> real \<Rightarrow> Pipe list \<Rightarrow> int \<Rightarrow> int \<Rightarrow> Pipe list \<times> int \<times> int" where
  "move_pipes spd plx [] sc pp = ([], sc, pp)"
| "move_pipes spd plx (pipe # rest) sc pp =
     (let pipe1 = pipe\<lparr>pipe_x := pipe_x pipe - spd\<rparr>
      in if \<not> passed pipe1 \<and> pipe_x pipe1 + 50 < plx then
           (case move_pipes spd plx rest (sc + 1) (pp + 1) of
              (rest1, sc1, pp1) \<Rightarrow> (pipe1\<lparr>passed := True\<rparr> # rest1, sc1, pp1))
         else
           (case move_pipes spd plx rest sc pp of
              (rest1, sc1, pp1) \<Rightarrow> (pipe1 # rest1, sc1, pp1)))"

text \<open>The collision test of the last loop of \<open>Game.update\<close>, for one pipe.\<close>

definition hits_pipe :: "Game \<Rightarrow> Pipe \<Rightarrow> bool" where
  "hits_pipe g pipe =
     (if player_x g < pipe_x pipe + 50 \<and> player_x g + PLAYER_SIZE > pipe_x pipe then
        (if player_y g < of_int (top_height pipe)
            \<or> player_y g + PLAYER_SIZE > of_int (top_height pipe + gap pipe)
         then True else False)
      else False)"

fun check_collisions :: "Pipe list \<Rightarrow> Game \<Rightarrow> Game" where
  "check_collisions [] g = g"
| "check_collisions (pipe # rest) g =
     check_collisions rest (if hits_pipe g pipe then g\<lparr>game_over := True\<rparr> else g)"

text \<open>
  \<open>Game.update\<close> in two parts. \<open>move_and_spawn\<close> is everything between the early
  return and the collision loop: gravity, the boundary check, the pipes moving, the
  pipes leaving the screen, a new pipe when one is due. The collision loop then runs
  over the pipes that are left.
\<close>

definition move_and_spawn :: "int \<Rightarrow> Game \<Rightarrow> py_error + Game" where
  "move_and_spawn r g0 =
     (let g1 = g0\<lparr>player_velocity := player_velocity g0 + GRAVITY\<rparr>;
          g2 = g1\<lparr>player_y := player_y g1 + player_velocity g1\<rparr>;
          g3 = (if player_y g2 < 0 \<or> player_y g2 + PLAYER_SIZE > FLAPPY_SCREEN_HEIGHT
                then g2\<lparr>game_over := True\<rparr> else g2);
          g4 = (case move_pipes (current_speed g3) (player_x g3) (pipes g3)
                       (score g3) (pipes_passed g3) of
                  (ps, sc, pp) \<Rightarrow> g3\<lparr>pipes := ps, score := sc, pipes_passed := pp\<rparr>);
          g5 = g4\<lparr>pipes := filter (\<lambda>p. pipe_x p > - 100) (pipes g4)\<rparr>
      in if length (pipes g5) = 0 \<or> pipe_x (last (pipes g5)) < FLAPPY_SCREEN_WIDTH - 200
         then spawn_pipe r g5 else Inr g5)"

definition Game_update :: "int \<Rightarrow> Game \<Rightarrow> py_error + Game" where
  "Game_update r g0 =
     (if game_over g0 then Inr g0
      else
        (case move_and_spawn r g0 of
           Inl e \<Rightarrow> Inl e
         | Inr g6 \<Rightarrow> Inr (check_collisions (pipes g6) g6)))"

text \<open>
  The geometry the collision claim speaks of. The player's box is
  [player_x, player_x + 60] by [player_y, player_y + 60]; a pipe spans [x, x + 50]
  horizontally and leaves the gap [top_height, top_height + gap] open.
\<close>

definition outside_span :: "Game \<Rightarrow> Pipe \<Rightarrow> bool" where
  "outside_span g pipe =
     (player_x g + PLAYER_SIZE \<le> pipe_x pipe \<or> pipe_x pipe + 50 \<le> player_x g)"

definition inside_gap :: "Game \<Rightarrow> Pipe \<Rightarrow> bool" where
  "inside_gap g pipe =
     (of_int (top_height pipe) \<le> player_y g
      \<and> player_y g + PLAYER_SIZE \<le> of_int (top_height pipe + gap pipe))"

section \<open>Console scripts\<close>

text \<open>
  Console input is the list of the lines still to be read, console output the list of
  what was written: a prompt of \<open>input\<close> or the arguments of a \<open>print\<close>.
\<close>

datatype pyval = PyStr string | PyInt int | PyList "pyval list" | PyQuit

datatype io_event = Prompt string | Print "pyval list"

subsection \<open>The training-session validator\<close>

text \<open>
  \<open>int(input(...))\<close> on console lines that hold integers; the end of the input raises
  EOFError.
\<close>

definition input_int :: "string \<Rightarrow> int list \<Rightarrow> io_event list
    \<Rightarrow> py_error + (int \<times> int list \<times> io_event list)" where
  "input_int prompt ins out =
     (case ins of [] \<Rightarrow> Inl EOFError | v # rest \<Rightarrow> Inr (v, rest, out @ [Prompt prompt]))"

definition session_prompt :: string where
  "session_prompt = ''Please enter the length of your training session: ''"

definition session_error :: io_event where
  "session_error = Print [PyStr ''Error. A training session must be between 10 and 30'']"

text \<open>The while loop of step 2, entered with the value read before it.\<close>

function validation_loop :: "int \<Rightarrow> int list \<Rightarrow> io_event list
    \<Rightarrow> py_error + (int \<times> int list \<times> io_event list)" where
  "validation_loop training_session ins out =
     (if training_session < 10 \<or> training_session > 30 then
        (case input_int session_prompt ins (out @ [session_error]) of
           Inl e \<Rightarrow> Inl e
         | Inr (v, rest, out1) \<Rightarrow> validation_loop v rest out1)
      else Inr (training_session, ins, out))"
  by pat_completeness auto
termination
  by (relation "measure (\<lambda>(training_session, ins, out). length ins)")
     (auto simp: input_int_def split: list.splits)

declare validation_loop.simps [simp del]

text \<open>Step 2: the first read and the loop.\<close>

definition read_training_session :: "int list \<Rightarrow> py_error + (int \<times> int list \<times> io_event list)" where
  "read_training_session ins =
     (case input_int session_prompt ins [] of
        Inl e \<Rightarrow> Inl e
      | Inr (v, rest, out) \<Rightarrow> validation_loop v rest out)"

text \<open>The values the loop rejects: its condition.\<close>

definition out_of_range :: "int \<Rightarrow> bool" where
  "out_of_range v = (v < 10 \<or> v > 30)"

subsection \<open>Mystery Mansion\<close>

definition rooms :: pyval where
  "rooms = PyList [PyStr ''Enterence Hall'', PyStr ''Libary'', PyStr ''Kitchen'',
                   PyStr ''Garden'']"

definition descriptions :: pyval where
  "descriptions = PyList [PyStr ''A grand foyer with a crystal chandelier'',
                          PyStr ''Dusty bookshelves stretch from floor to ceiling'',
                          PyStr ''Copper pots hang above an old stone hearth'',
                          PyStr ''Overgrown vines twist around marble statues'']"

definition commands :: pyval where
  "commands = PyList [PyStr ''N'', PyStr ''S'', PyStr ''E'', PyStr ''W'', PyStr ''Quit'',
                      PyStr ''Help'']"

definition help_text :: pyval where
  "help_text = PyStr ''Please enter either 1 (North), 2 (South), 3 (East), 4 (West) to move through the masion. Only type the letters not the names.''"

text \<open>
  Applying call syntax to a value: only a callable can be called. \<open>quit()\<close> raises
  SystemExit; a string, an integer or a list is not callable.
\<close>

fun py_call :: "pyval \<Rightarrow> pyval list \<Rightarrow> py_error + pyval" where
  "py_call PyQuit args = Inl SystemExit"
| "py_call (PyStr s) args = Inl TypeError"
| "py_call (PyInt i) args = Inl TypeError"
| "py_call (PyList vs) args = Inl TypeError"

text \<open>The operator \<open>+\<close>.\<close>

fun py_add :: "pyval \<Rightarrow> pyval \<Rightarrow> py_error + pyval" where
  "py_add (PyStr a) (PyStr b) = Inr (PyStr (a @ b))"
| "py_add (PyInt a) (PyInt b) = Inr (PyInt (a + b))"
| "py_add (PyList a) (PyList b) = Inr (PyList (a @ b))"
| "py_add a b = Inl TypeError"

text \<open>The test \<open>move == commands(k)\<close>.\<close>

definition move_is_command :: "string \<Rightarrow> int \<Rightarrow> py_error + bool" where
  "move_is_command move k =
     (case py_call commands [PyInt k] of Inl e \<Rightarrow> Inl e | Inr c \<Rightarrow> Inr (PyStr move = c))"

text \<open>The statement \<open>print("Welcome to the", rooms(k) + descriptions(k))\<close>.\<close>

definition show_room :: "int \<Rightarrow> io_event list \<Rightarrow> py_error + io_event list" where
  "show_room k out =
     (case py_call rooms [PyInt k] of
        Inl e \<Rightarrow> Inl e
      | Inr r \<Rightarrow>
         (case py_call descriptions [PyInt k] of
            Inl e \<Rightarrow> Inl e
          | Inr d \<Rightarrow>
             (case py_add r d of
                Inl e \<Rightarrow> Inl e
              | Inr s \<Rightarrow> Inr (out @ [Print [PyStr ''Welcome to the'', s]]))))"

text \<open>The if/elif chain of the command loop, for one move.\<close>

definition dispatch :: "string \<Rightarrow> io_event list \<Rightarrow> py_error + io_event list" where
  "dispatch move out =
     (case move_is_command move 0 of Inl e \<Rightarrow> Inl e
      | Inr True \<Rightarrow> show_room 0 out
      | Inr False \<Rightarrow>
     (case move_is_command move 1 of Inl e \<Rightarrow> Inl e
      | Inr True \<Rightarrow> show_room 1 out
      | Inr False \<Rightarrow>
     (case move_is_command move 2 of Inl e \<Rightarrow> Inl e
      | Inr True \<Rightarrow> show_room 2 out
      | Inr False \<Rightarrow>
     (case move_is_command move 3 of Inl e \<Rightarrow> Inl e
      | Inr True \<Rightarrow> show_room 3 out
      | Inr False \<Rightarrow>
     (case move_is_command move 4 of Inl e \<Rightarrow> Inl e
      | Inr True \<Rightarrow> (case py_call PyQuit [] of Inl e \<Rightarrow> Inl e | Inr v \<Rightarrow> Inr out)
      | Inr False \<Rightarrow>
     (case move_is_command move 5 of Inl e \<Rightarrow> Inl e
      | Inr True \<Rightarrow> Inr (out @ [Print [help_text]])
      | Inr False \<Rightarrow>
          Inr (out @ [Print [PyStr ''Not a valid move please try again, enter Help for the commands to the game'']])))))))"

definition move_prompt :: string where
  "move_prompt = ''Please enter where you would like to move to''"

text \<open>
  \<open>while True\<close>: the loop ends only by an exception, which is returned with the output
  written so far.
\<close>

fun command_loop :: "string list \<Rightarrow> io_event list \<Rightarrow> py_error \<times> io_event list" where
  "command_loop [] out = (EOFError, out @ [Prompt move_prompt])"
| "command_loop (move # rest) out =
     (case dispatch move (out @ [Prompt move_prompt]) of
        Inl e \<Rightarrow> (e, out @ [Prompt move_prompt])
      | Inr out1 \<Rightarrow> command_loop rest out1)"

definition mansion_banner :: "string \<Rightarrow> io_event list" where
  "mansion_banner name =
     [Prompt ''Please Enter you Player Name'',
      Print [PyStr ''Welcome'', PyStr name, PyStr ''To the Mystery Mansion''],
      Print [PyStr ''To exploar the mysterious mansion Please enter either N (North), S (South), E (East), W (West) to move through the masion.''],
      Print [PyStr ''If you want to quit the game enter  Quit and if you need the commends enter help''],
      Print [PyStr ''Please now enter the commands to move throught the manison'']]"

definition mystery_mansion :: "string list \<Rightarrow> py_error \<times> io_event list" where
  "mystery_mansion ins =
     (case ins of
        [] \<Rightarrow> (EOFError, [Prompt ''Please Enter you Player Name''])
      | name # rest \<Rightarrow> command_loop rest (mansion_banner name))"

text \<open>A room is displayed when a line "Welcome to the ..." is printed.\<close>

fun displays_room :: "io_event \<Rightarrow> bool" where
  "displays_room (Print (PyStr s # vs)) = (s = ''Welcome to the'')"
| "displays_room ev = False"

subsection \<open>The array-traversal task and the layout of a Python file\<close>

text \<open>The lines of the script, from the first statement on.\<close>

definition traversing_task :: "string list" where
  \<open>traversing_task =
     [''food = []'',
      [],
      ''total = 0'',
      [],
      ''for index in range(5):'',
      ''    food.append(int(input("Enter the dog food weight (between 0g and 300g)")))'',
      ''        if food[index] > 0:'',
      ''            print("Must be between 0g and 300g")'',
      ''        elif food[index] < 300:'',
      ''            print("Must be between 0g and 300g")'',
      ''    total = (total+food[index])'',
      [],
      ''print(total)'']\<close>

text \<open>The line number of the first of these lines in the file.\<close>

definition traversing_task_first_line :: nat where
  "traversing_task_first_line = 8"

datatype layout_error = UnexpectedIndent | ExpectedIndentedBlock | InconsistentDedent

definition indent_of :: "string \<Rightarrow> nat" where
  "indent_of s = length (takeWhile (\<lambda>c. c = CHR '' '') s)"

definition is_blank :: "string \<Rightarrow> bool" where
  "is_blank s = (case dropWhile (\<lambda>c. c = CHR '' '') s of [] \<Rightarrow> True | c # cs \<Rightarrow> c = CHR ''#'')"

text \<open>A line opens a block when it ends with a colon.\<close>

definition opens_block :: "string \<Rightarrow> bool" where
  "opens_block s =
     (case dropWhile (\<lambda>c. c = CHR '' '') (rev s) of [] \<Rightarrow> False | c # cs \<Rightarrow> c = CHR '':'')"

text \<open>Leaving blocks: the indentation stack is popped down to the line's indentation.\<close>

fun dedent :: "nat list \<Rightarrow> nat \<Rightarrow> nat list option" where
  "dedent [] n = None"
| "dedent (level # stack) n =
     (if n = level then Some (level # stack)
      else if n < level then dedent stack n
      else None)"

text \<open>
  Python's layout rule, line by line: an indentation deeper than the enclosing block's
  is allowed only right after a line that opens a block, and is required there; a
  shallower one must return to an enclosing block's level. The result is the first
  error and its line number, \<open>None\<close> when the layout is well-formed. A file with a
  layout error is rejected as a whole before any statement of it runs.
\<close>

fun check_layout :: "string list \<Rightarrow> nat \<Rightarrow> nat list \<Rightarrow> bool \<Rightarrow> (layout_error \<times> nat) option" where
  "check_layout [] lineno stack opened =
     (if opened then Some (ExpectedIndentedBlock, lineno) else None)"
| "check_layout (l # ls) lineno stack opened =
     (if is_blank l then check_layout ls (lineno + 1) stack opened
      else
        (let n = indent_of l; level = (case stack of [] \<Rightarrow> 0 | t # ts \<Rightarrow> t)
         in if n > level then
              (if opened then check_layout ls (lineno + 1) (n # stack) (opens_block l)
               else Some (UnexpectedIndent, lineno))
            else if opened then Some (ExpectedIndentedBlock, lineno)
            else
              (case dedent stack n of
                 None \<Rightarrow> Some (InconsistentDedent, lineno)
               | Some stack1 \<Rightarrow> check_layout ls (lineno + 1) stack1 (opens_block l))))"

section \<open>Example inputs\<close>

text \<open>A straight track of \<open>n\<close> points, one unit apart along the x axis.\<close>

definition line_track :: "nat \<Rightarrow> Vector3 list" where
  "line_track n = map (\<lambda>i. \<lparr>vec_x = real i, vec_y = 0, vec_z = 0\<rparr>) [0..<n]"

definition on_line :: "real \<Rightarrow> Vector3" where
  "on_line d = \<lparr>vec_x = d, vec_y = 0, vec_z = 0\<rparr>"

text \<open>No key held, and single keys held.\<close>

definition no_keys :: Keys where
  "no_keys = \<lparr>K_w = False, K_UP = False, K_s = False, K_DOWN = False, K_a = False,
              K_LEFT = False, K_d = False, K_RIGHT = False, K_LSHIFT = False,
              K_RSHIFT = False\<rparr>"

definition accelerate_keys :: Keys where
  "accelerate_keys = no_keys\<lparr>K_w := True\<rparr>"

definition steer_left_keys :: Keys where
  "steer_left_keys = no_keys\<lparr>K_a := True\<rparr>"

text \<open>The flappy game as \<open>reset_game\<close> leaves it, without its first pipe.\<close>

definition flappy_start :: Game where
  "flappy_start =
     \<lparr>player_x = 100, player_y = 300, player_velocity = 0, pipes = [], score = 0,
      game_over = False, pipes_passed = 0, base_speed = 4, current_speed = 4,
      base_gap = 200, current_gap = 200\<rparr>"

definition pipe_at :: "real \<Rightarrow> int \<Rightarrow> Pipe" where
  "pipe_at px h = \<lparr>pipe_x = px, top_height = h, gap = 200, passed = False\<rparr>"

text \<open>
  A sports car heading along the z axis (yaw 90 degrees) at speed \<open>v\<close>.
\<close>

definition cruising_car :: "real \<Rightarrow> Car3D" where
  "cruising_car v =
     (Car3D_init 0 0 0 SPORTS True)
       \<lparr>velocity := \<lparr>vec_x = 0, vec_y = 0, vec_z = v\<rparr>, angle_yaw := 90, speed := v\<rparr>"

text \<open>
  A three-point track, a game whose player has just finished, and a game whose player
  is one lap short and about to cross the start again.
\<close>

definition small_track :: Track3D where
  "small_track = \<lparr>points = line_track 3, left_barriers = [], right_barriers = []\<rparr>"

definition finished_game :: Game3D where
  "finished_game =
     \<lparr>running = True, state = ''finish'', track = small_track,
      player = Some ((Car3D_init 0 0 0 SPORTS True)\<lparr>lap_count := 3, finished := True\<rparr>),
      ai_cars = []\<rparr>"

text \<open>
  A game back in the menu after a race on a straight track of 100 points: the player
  and the one AI car are still as the race left them.
\<close>

definition stale_menu_game :: Game3D where
  "stale_menu_game =
     \<lparr>running = True, state = ''menu'',
      track = \<lparr>points = line_track 100, left_barriers = [], right_barriers = []\<rparr>,
      player = Some ((Car3D_init 0 0 0 SPORTS True)
                       \<lparr>pos := on_line 5, lap_count := 3, finished := True\<rparr>),
      ai_cars = [(Car3D_init 10 0 0 SUPERCAR False)\<lparr>pos := on_line 70, lap_count := 1\<rparr>]\<rparr>"

definition last_lap_car :: Car3D where
  "last_lap_car = (Car3D_init 0 0 0 SPORTS True)\<lparr>lap_count := 2, last_checkpoint := 2\<rparr>"

definition last_lap_game :: Game3D where
  "last_lap_game =
     \<lparr>running = True, state = ''racing'', track = small_track,
      player = Some last_lap_car, ai_cars = []\<rparr>"


section \<open>Proofs: lap progress\<close>

lemma check_checkpoint_last:
  "last_checkpoint (check_checkpoint tr c) =
     (if tr \<noteq> [] \<and> closest_index tr (pos c) > last_checkpoint c
      then closest_index tr (pos c) else last_checkpoint c)"
  by (simp add: check_checkpoint_def Let_def)

lemma check_checkpoint_laps:
  "lap_count (check_checkpoint tr c) =
     (if tr \<noteq> [] \<and> closest_index tr (pos c) < last_checkpoint c \<and> closest_index tr (pos c) < 20
      then lap_count c + 1 else lap_count c)"
  by (simp add: check_checkpoint_def Let_def)

lemma uth_last: "last_checkpoint (update_track_height tr c) = last_checkpoint c"
  by (simp add: update_track_height_def Let_def)

lemma thrust_last: "last_checkpoint (add_thrust f r k c) = last_checkpoint c"
  by (simp add: add_thrust_def)
lemma scale_last: "last_checkpoint (scale_velocity r c) = last_checkpoint c"
  by (simp add: scale_velocity_def)
lemma turn_last: "last_checkpoint (turn d c) = last_checkpoint c"
  by (simp add: turn_def)
lemma cap_last: "last_checkpoint (cap_speed c) = last_checkpoint c"
  by (simp add: cap_speed_def Let_def scale_last)

lemma upi_last: "last_checkpoint (update_player_input ks dt c) = last_checkpoint c"
  by (simp add: update_player_input_def Let_def cap_last thrust_last scale_last turn_last)

lemma uai_last: "update_ai tr dt c = Inr c' \<Longrightarrow> last_checkpoint c' = last_checkpoint c"
  by (auto simp add: update_ai_def Let_def cap_last thrust_last turn_last split: if_splits sum.splits)

lemma control_last: "control tr keys dt c = Inr c' \<Longrightarrow> last_checkpoint c' = last_checkpoint c"
  by (auto simp add: control_def upi_last split: option.splits if_splits dest: uai_last)

lemma integrate_last: "last_checkpoint c \<le> last_checkpoint (integrate tr dt c)"
  by (simp add: integrate_def Let_def check_checkpoint_last uth_last scale_last)

lemma update_last:
  assumes "update tr keys dt c = Inr c'"
  shows "last_checkpoint c \<le> last_checkpoint c'"
proof (cases "finished c")
  case True
  with assms show ?thesis by (simp add: update_def)
next
  case False
  with assms obtain c1 where c1: "control tr keys dt c = Inr c1" and c': "c' = integrate tr dt c1"
    by (auto simp add: update_def split: sum.splits)
  from control_last [OF c1] integrate_last [of c1 tr dt] show ?thesis
    unfolding c' by simp
qed

lemma check_checkpoint_finished:
  "finished (check_checkpoint tr c) =
     (finished c \<or> (tr \<noteq> [] \<and> closest_index tr (pos c) < last_checkpoint c
                     \<and> closest_index tr (pos c) < 20 \<and> 2 \<le> lap_count c))"
  by (auto simp add: check_checkpoint_def Let_def)

lemma last_lap_car_closest: "closest_index (line_track 3) (pos last_lap_car) = 0"
  by (simp add: last_lap_car_def Car3D_init_def line_track_def upt_rec closest_index_def
      distance_to_def)

lemma last_lap_car_input: "update_player_input no_keys dt last_lap_car = last_lap_car"
  by (simp add: update_player_input_def Let_def no_keys_def cap_speed_def last_lap_car_def
      Car3D_init_def py_fmod_def)

lemma last_lap_car_update:
  "update (line_track 3) (Some no_keys) dt last_lap_car
     = Inr (integrate (line_track 3) dt last_lap_car)"
proof -
  have "\<not> finished last_lap_car" "is_player last_lap_car"
    by (simp_all add: last_lap_car_def Car3D_init_def)
  then show ?thesis by (simp add: update_def control_def last_lap_car_input)
qed

lemma last_lap_car_finishes: "finished (integrate (line_track 3) dt last_lap_car)"
  by (simp add: integrate_def Let_def scale_velocity_def update_track_height_def
      check_checkpoint_def last_lap_car_def Car3D_init_def line_track_def upt_rec
      closest_index_def distance_to_def)

text \<open>
  Claim C10. \<open>check_checkpoint\<close> never lowers \<open>last_checkpoint\<close>: after a call it is
  the old value or the index of the closest track point, whichever is larger. A call
  that increments \<open>lap_count\<close> or finishes the car leaves it as it was, so it is never
  reset. The same holds across a whole frame of \<open>Car3D.update\<close>, the only caller.
\<close>

theorem last_checkpoint_never_decreases:
  "last_checkpoint c \<le> last_checkpoint (check_checkpoint tr c)
   \<and> (last_checkpoint (check_checkpoint tr c) = last_checkpoint c
        \<or> last_checkpoint (check_checkpoint tr c) = closest_index tr (pos c))
   \<and> (lap_count (check_checkpoint tr c) \<noteq> lap_count c
        \<longrightarrow> last_checkpoint (check_checkpoint tr c) = last_checkpoint c)
   \<and> (finished (check_checkpoint tr c) \<and> \<not> finished c
        \<longrightarrow> last_checkpoint (check_checkpoint tr c) = last_checkpoint c)
   \<and> (\<forall>c'. update tr keys dt c = Inr c' \<longrightarrow> last_checkpoint c \<le> last_checkpoint c')"
  using update_last
  by (auto simp add: check_checkpoint_last check_checkpoint_laps check_checkpoint_finished)

theorem last_checkpoint_never_decreases_witness:
  "lap_count (check_checkpoint (line_track 3) last_lap_car) = 3
   \<and> finished (check_checkpoint (line_track 3) last_lap_car)
   \<and> last_checkpoint (check_checkpoint (line_track 3) last_lap_car) = 2
   \<and> update (line_track 3) (Some no_keys) (16 / 1000) last_lap_car
       = Inr (integrate (line_track 3) (16 / 1000) last_lap_car)
   \<and> 2 \<le> last_checkpoint (integrate (line_track 3) (16 / 1000) last_lap_car)"
proof -
  have f0: "lap_count last_lap_car = 2" "last_checkpoint last_lap_car = 2"
       "\<not> finished last_lap_car"
    by (simp_all add: last_lap_car_def Car3D_init_def)
  have ne: "line_track 3 \<noteq> []" by (simp add: line_track_def)
  have laps: "lap_count (check_checkpoint (line_track 3) last_lap_car) = 3"
    by (subst check_checkpoint_laps, simp add: last_lap_car_closest f0 ne)
  have fin: "finished (check_checkpoint (line_track 3) last_lap_car)"
    by (subst check_checkpoint_finished, simp add: last_lap_car_closest f0 ne)
  from laps f0 have "lap_count (check_checkpoint (line_track 3) last_lap_car)
                       \<noteq> lap_count last_lap_car" by simp
  with last_checkpoint_never_decreases [of last_lap_car "line_track 3"]
  have same: "last_checkpoint (check_checkpoint (line_track 3) last_lap_car) = 2"
    using f0 by simp
  from fin f0 last_checkpoint_never_decreases [of last_lap_car "line_track 3"]
  have "last_checkpoint (check_checkpoint (line_track 3) last_lap_car)
          = last_checkpoint last_lap_car" by blast
  from last_checkpoint_never_decreases
         [of last_lap_car "line_track 3" "Some no_keys" "16 / 1000"]
       last_lap_car_update [of "16 / 1000"]
  have "last_checkpoint last_lap_car
          \<le> last_checkpoint (integrate (line_track 3) (16 / 1000) last_lap_car)" by blast
  with laps fin same f0 last_lap_car_update [of "16 / 1000"] show ?thesis by simp
qed

lemma check_checkpoint_pos: "pos (check_checkpoint tr c) = pos c"
  by (simp add: check_checkpoint_def Let_def)

lemma ci3: "closest_index (line_track 100) (on_line 3) = 3"
  by (simp add: line_track_def on_line_def upt_rec closest_index_def distance_to_def)

lemma ci2: "closest_index (line_track 100) (on_line 2) = 2"
  by (simp add: line_track_def on_line_def upt_rec closest_index_def distance_to_def)

text \<open>
  Claim C2, at a failing input. On a straight track of 100 points (final index 99) a
  car whose closest index was 3 moves back to the point of index 2, and the lap counter
  goes from 0 to 1, although the index did not come from near the final index. And
  since \<open>last_checkpoint\<close> stays at 3, a car that then stands still at the point of
  index 2 is counted a lap by every call: after three calls it has three laps and has
  finished.
\<close>

theorem lap_counted_without_wraparound:
  "closest_index (line_track 100) (on_line 3) = 3
   \<and> closest_index (line_track 100) (on_line 2) = 2
   \<and> length (line_track 100) = 100
   \<and> last_checkpoint (check_checkpoint (line_track 100) (Car3D_init 3 0 0 SPORTS True)) = 3
   \<and> lap_count (check_checkpoint (line_track 100) (Car3D_init 3 0 0 SPORTS True)) = 0
   \<and> lap_count (check_checkpoint (line_track 100)
        ((check_checkpoint (line_track 100) (Car3D_init 3 0 0 SPORTS True))
           \<lparr>pos := on_line 2\<rparr>)) = 1
   \<and> lap_count (check_checkpoint (line_track 100) (check_checkpoint (line_track 100)
        (check_checkpoint (line_track 100)
           ((check_checkpoint (line_track 100) (Car3D_init 3 0 0 SPORTS True))
              \<lparr>pos := on_line 2\<rparr>)))) = 3
   \<and> finished (check_checkpoint (line_track 100) (check_checkpoint (line_track 100)
        (check_checkpoint (line_track 100)
           ((check_checkpoint (line_track 100) (Car3D_init 3 0 0 SPORTS True))
              \<lparr>pos := on_line 2\<rparr>))))"
proof -
  let ?T = "line_track 100"
  let ?c0 = "(check_checkpoint ?T (Car3D_init 3 0 0 SPORTS True))\<lparr>pos := on_line 2\<rparr>"
  let ?c1 = "check_checkpoint ?T ?c0"
  let ?c2 = "check_checkpoint ?T ?c1"
  let ?c3 = "check_checkpoint ?T ?c2"
  have ne: "?T \<noteq> []" by (simp add: line_track_def)
  have p: "pos (Car3D_init 3 0 0 SPORTS True) = on_line 3"
    by (simp add: Car3D_init_def on_line_def)
  have l0: "last_checkpoint (Car3D_init 3 0 0 SPORTS True) = 0"
       "lap_count (Car3D_init 3 0 0 SPORTS True) = 0"
    by (simp_all add: Car3D_init_def)
  have a: "last_checkpoint (check_checkpoint ?T (Car3D_init 3 0 0 SPORTS True)) = 3"
    by (simp add: check_checkpoint_last p ci3 l0 ne)
  have b: "lap_count (check_checkpoint ?T (Car3D_init 3 0 0 SPORTS True)) = 0"
    by (subst check_checkpoint_laps, simp only: p, simp only: l0 ci3, simp add: ne)
  have p0: "pos ?c0 = on_line 2" by simp
  have k0: "last_checkpoint ?c0 = 3" using a by simp
  have n0: "lap_count ?c0 = 0" using b by simp
  have p1: "pos ?c1 = on_line 2" by (simp add: check_checkpoint_pos)
  have k1: "last_checkpoint ?c1 = 3"
    by (subst check_checkpoint_last, simp only: p0 k0 ci2, simp)
  have n1: "lap_count ?c1 = 1"
    by (subst check_checkpoint_laps, simp only: p0 k0 n0 ci2, simp add: ne)
  have p2: "pos ?c2 = on_line 2" by (simp add: check_checkpoint_pos)
  have k2: "last_checkpoint ?c2 = 3"
    by (subst check_checkpoint_last, simp only: p1 k1 ci2, simp)
  have n2: "lap_count ?c2 = 2"
    by (subst check_checkpoint_laps, simp only: p1 k1 n1 ci2, simp add: ne)
  have n3: "lap_count ?c3 = 3"
    by (subst check_checkpoint_laps, simp only: p2 k2 n2 ci2, simp add: ne)
  have f3: "finished ?c3"
    by (subst check_checkpoint_finished, simp only: p2 k2 n2 ci2, simp add: ne)
  have len: "length ?T = 100" by (simp add: line_track_def)
  from a b n1 n3 f3 ci3 ci2 len show ?thesis by simp
qed

section \<open>Flappy game: the collision check\<close>

lemma hits_pipe_game_over [simp]: "hits_pipe (g\<lparr>game_over := b\<rparr>) p = hits_pipe g p"
  by (simp add: hits_pipe_def)

lemma hits_pipe_geometry: "hits_pipe g p = (\<not> outside_span g p \<and> \<not> inside_gap g p)"
  by (auto simp add: hits_pipe_def outside_span_def inside_gap_def)

lemma check_collisions_game_over:
  "game_over (check_collisions ps g) = (game_over g \<or> (\<exists>p\<in>set ps. hits_pipe g p))"
proof (induction ps arbitrary: g)
  case Nil
  show ?case by simp
next
  case (Cons p ps)
  show ?case by (auto simp add: Cons.IH)
qed

text \<open>
  Claim C4. For every pipe: a player box outside the pipe's horizontal span does not
  collide with it; a box within the span and inside the vertical gap does not collide;
  a box within the span that leaves the gap collides. The loop over the pipes sets
  \<open>game_over\<close> exactly when some pipe is of the third kind, and leaves it as it was
  when every pipe is of the first two kinds. So a frame of \<open>Game.update\<close> that starts
  with the game running ends with \<open>game_over\<close> set exactly when the boundary check set
  it or some pipe then on screen is of the third kind.
\<close>

lemma Game_update_collisions:
  assumes "\<not> game_over g0" and "Game_update r g0 = Inr g'"
  shows "\<exists>g6. move_and_spawn r g0 = Inr g6
           \<and> game_over g' = (game_over g6 \<or> (\<exists>q\<in>set (pipes g6). hits_pipe g6 q))"
  using assms
  by (auto simp add: Game_update_def check_collisions_game_over split: sum.splits)

lemma flappy_first_frame:
  "move_and_spawn 200 flappy_start
     = Inr (flappy_start\<lparr>player_velocity := 1 / 2, player_y := 601 / 2,
                          pipes := [pipe_at 800 200]\<rparr>)"
  by (simp add: move_and_spawn_def flappy_start_def Let_def spawn_pipe_def pipe_at_def
      GRAVITY_def PLAYER_SIZE_def FLAPPY_SCREEN_HEIGHT_def FLAPPY_SCREEN_WIDTH_def)

theorem pipe_collision_geometry:
  "(outside_span g p \<longrightarrow> \<not> hits_pipe g p)
   \<and> (\<not> outside_span g p \<and> inside_gap g p \<longrightarrow> \<not> hits_pipe g p)
   \<and> (\<not> outside_span g p \<and> \<not> inside_gap g p \<longrightarrow> hits_pipe g p)
   \<and> ((\<forall>q\<in>set ps. outside_span g q \<or> inside_gap g q)
        \<longrightarrow> game_over (check_collisions ps g) = game_over g)
   \<and> ((\<exists>q\<in>set ps. \<not> outside_span g q \<and> \<not> inside_gap g q)
        \<longrightarrow> game_over (check_collisions ps g))
   \<and> (\<forall>g'. \<not> game_over g0 \<and> Game_update r g0 = Inr g'
        \<longrightarrow> (\<exists>g6. move_and_spawn r g0 = Inr g6
               \<and> game_over g' = (game_over g6
                     \<or> (\<exists>q\<in>set (pipes g6). \<not> outside_span g6 q \<and> \<not> inside_gap g6 q))))"
  using Game_update_collisions [of g0 r]
  by (auto simp add: check_collisions_game_over hits_pipe_geometry)

theorem pipe_collision_geometry_witness:
  "\<not> hits_pipe flappy_start (pipe_at 800 200)
   \<and> \<not> hits_pipe flappy_start (pipe_at 120 250)
   \<and> hits_pipe flappy_start (pipe_at 120 320)
   \<and> \<not> game_over (check_collisions [pipe_at 800 200, pipe_at 120 250] flappy_start)
   \<and> game_over (check_collisions [pipe_at 800 200, pipe_at 120 320] flappy_start)
   \<and> (\<exists>g'. Game_update 200 flappy_start = Inr g' \<and> \<not> game_over g')"
proof -
  have far: "outside_span flappy_start (pipe_at 800 200)"
    by (simp add: outside_span_def flappy_start_def pipe_at_def PLAYER_SIZE_def)
  have near: "\<not> outside_span flappy_start (pipe_at 120 250)"
       "\<not> outside_span flappy_start (pipe_at 120 320)"
    by (simp_all add: outside_span_def flappy_start_def pipe_at_def PLAYER_SIZE_def)
  have ins: "inside_gap flappy_start (pipe_at 120 250)"
    by (simp add: inside_gap_def flappy_start_def pipe_at_def PLAYER_SIZE_def)
  have out: "\<not> inside_gap flappy_start (pipe_at 120 320)"
    by (simp add: inside_gap_def flappy_start_def pipe_at_def PLAYER_SIZE_def)
  have g0: "\<not> game_over flappy_start" by (simp add: flappy_start_def)
  from pipe_collision_geometry [of flappy_start "pipe_at 800 200" "[]"] far
  have 1: "\<not> hits_pipe flappy_start (pipe_at 800 200)" by blast
  from pipe_collision_geometry [of flappy_start "pipe_at 120 250" "[]"] near ins
  have 2: "\<not> hits_pipe flappy_start (pipe_at 120 250)" by blast
  from pipe_collision_geometry [of flappy_start "pipe_at 120 320" "[]"] near out
  have 3: "hits_pipe flappy_start (pipe_at 120 320)" by blast
  from pipe_collision_geometry
         [of flappy_start "pipe_at 120 320" "[pipe_at 800 200, pipe_at 120 250]"] far ins g0
  have 4: "\<not> game_over (check_collisions [pipe_at 800 200, pipe_at 120 250] flappy_start)"
    by simp
  from pipe_collision_geometry
         [of flappy_start "pipe_at 120 320" "[pipe_at 800 200, pipe_at 120 320]"] near out
  have 5: "game_over (check_collisions [pipe_at 800 200, pipe_at 120 320] flappy_start)"
    by simp
  let ?g6 = "flappy_start\<lparr>player_velocity := 1 / 2, player_y := 601 / 2,
                           pipes := [pipe_at 800 200]\<rparr>"
  have u: "Game_update 200 flappy_start = Inr (check_collisions (pipes ?g6) ?g6)"
    by (simp add: Game_update_def g0 flappy_first_frame)
  have quiet: "\<not> game_over ?g6" "outside_span ?g6 (pipe_at 800 200)"
    by (simp_all add: flappy_start_def outside_span_def pipe_at_def PLAYER_SIZE_def)
  from pipe_collision_geometry
         [of flappy_start "pipe_at 800 200" "[]" flappy_start 200] g0 u flappy_first_frame
  have "game_over (check_collisions (pipes ?g6) ?g6)
          = (game_over ?g6
             \<or> (\<exists>q\<in>set (pipes ?g6). \<not> outside_span ?g6 q \<and> \<not> inside_gap ?g6 q))"
    by auto
  with quiet have "\<not> game_over (check_collisions (pipes ?g6) ?g6)" by simp
  with u have 6: "\<exists>g'. Game_update 200 flappy_start = Inr g' \<and> \<not> game_over g'" by simp
  from 1 2 3 4 5 6 show ?thesis by blast
qed

section \<open>The training-session validator\<close>

lemma out_of_range_fold: "(v < 10 \<or> 30 < v) = out_of_range v"
  by (simp add: out_of_range_def)

lemma validation_loop_char:
  "validation_loop v ins out =
     (if out_of_range v then
        (case dropWhile out_of_range ins of
           [] \<Rightarrow> Inl EOFError
         | w # rest \<Rightarrow>
            Inr (w, rest, out @ [session_error, Prompt session_prompt]
                   @ concat (map (\<lambda>u. [session_error, Prompt session_prompt])
                        (takeWhile out_of_range ins))))
      else Inr (v, ins, out))"
proof (induction ins arbitrary: v out)
  case Nil
  show ?case
    by (subst validation_loop.simps) (simp add: out_of_range_fold input_int_def)
next
  case (Cons u us)
  show ?case
  proof (cases "dropWhile out_of_range us")
    case Nil
    note d = Nil
    show ?thesis
      by (subst validation_loop.simps) (simp add: out_of_range_fold input_int_def Cons.IH d)
  next
    case (Cons w rest)
    note d = Cons
    show ?thesis
      by (subst validation_loop.simps) (simp add: out_of_range_fold input_int_def Cons.IH d)
  qed
qed

text \<open>
  Claim C8. The validator skips every entered value outside 10..30, printing the error
  message and prompting again for each; it stops at the first value within 10..30 and
  that value is the result. The input running out before such a value raises EOFError;
  an input that holds a value within 10..30 always yields a result.
\<close>

theorem training_session_validated:
  "read_training_session ins =
     (case dropWhile out_of_range ins of
        [] \<Rightarrow> Inl EOFError
      | v # rest \<Rightarrow>
         Inr (v, rest, Prompt session_prompt
                # concat (map (\<lambda>u. [session_error, Prompt session_prompt])
                     (takeWhile out_of_range ins))))
   \<and> (\<forall>v rest out. read_training_session ins = Inr (v, rest, out) \<longrightarrow> 10 \<le> v \<and> v \<le> 30)
   \<and> ((\<exists>u\<in>set ins. 10 \<le> u \<and> u \<le> 30)
        \<longrightarrow> (\<exists>v rest out. read_training_session ins = Inr (v, rest, out)))"
proof -
  have char: "read_training_session ins =
     (case dropWhile out_of_range ins of
        [] \<Rightarrow> Inl EOFError
      | v # rest \<Rightarrow>
         Inr (v, rest, Prompt session_prompt
                # concat (map (\<lambda>u. [session_error, Prompt session_prompt])
                     (takeWhile out_of_range ins))))"
  proof (cases ins)
    case Nil
    then show ?thesis by (simp add: read_training_session_def input_int_def)
  next
    case (Cons u us)
    note i = Cons
    show ?thesis
    proof (cases "dropWhile out_of_range us")
      case Nil
      note d = Nil
      show ?thesis
        by (simp add: i read_training_session_def input_int_def validation_loop_char d)
    next
      case (Cons w rest)
      note d = Cons
      show ?thesis
        by (simp add: i read_training_session_def input_int_def validation_loop_char d)
    qed
  qed
  have accepted: "10 \<le> v \<and> v \<le> 30" if "read_training_session ins = Inr (v, rest, out)"
    for v rest out
  proof -
    from that obtain rest' where d: "dropWhile out_of_range ins = v # rest'"
      unfolding char by (auto split: list.splits)
    then have "\<not> out_of_range v" using hd_dropWhile [of out_of_range ins] by simp
    then show ?thesis by (simp add: out_of_range_def)
  qed
  have total: "\<exists>v rest out. read_training_session ins = Inr (v, rest, out)"
    if "\<exists>u\<in>set ins. 10 \<le> u \<and> u \<le> 30"
  proof -
    from that have "dropWhile out_of_range ins \<noteq> []"
      by (fastforce simp add: dropWhile_eq_Nil_conv out_of_range_def)
    then show ?thesis unfolding char by (auto split: list.splits)
  qed
  from char accepted total show ?thesis by blast
qed

theorem training_session_validated_witness:
  "read_training_session [5, 31, 9, 20, 7] =
     Inr (20, [7], [Prompt session_prompt,
                    session_error, Prompt session_prompt,
                    session_error, Prompt session_prompt,
                    session_error, Prompt session_prompt])
   \<and> (10::int) \<le> 20 \<and> (20::int) \<le> 30"
proof -
  have e: "read_training_session [5, 31, 9, 20, 7] =
     Inr (20, [7], [Prompt session_prompt,
                    session_error, Prompt session_prompt,
                    session_error, Prompt session_prompt,
                    session_error, Prompt session_prompt])"
    using training_session_validated [of "[5, 31, 9, 20, 7]"]
    by (simp add: out_of_range_def)
  with training_session_validated [of "[5, 31, 9, 20, 7]"] show ?thesis by blast
qed

section \<open>Console scripts: the two defective exercises\<close>

lemma move_is_command_raises: "move_is_command move k = Inl TypeError"
  by (simp add: move_is_command_def commands_def)

lemma dispatch_raises: "dispatch move out = Inl TypeError"
  by (simp add: dispatch_def move_is_command_raises)

lemma command_loop_raises:
  "command_loop (move # rest) out = (TypeError, out @ [Prompt move_prompt])"
  by (simp add: dispatch_raises)

lemma banner_shows_no_room: "\<not> list_ex displays_room (mansion_banner name)"
  by (simp add: mansion_banner_def)

lemma command_loop_shows_no_room:
  "\<not> list_ex displays_room out \<Longrightarrow> \<not> list_ex displays_room (snd (command_loop ins out))"
  by (cases ins) (simp_all add: dispatch_raises)

lemma traversing_task_layout:
  "check_layout traversing_task traversing_task_first_line [0] False
     = Some (UnexpectedIndent, 14)"
  by (simp add: traversing_task_def traversing_task_first_line_def is_blank_def indent_of_def
      opens_block_def)

text \<open>
  Claim C9. In the Mystery Mansion command loop the first comparison applies call
  syntax to the list \<open>commands\<close>, so every move raises TypeError; the program stops there
  with nothing but its banner and the prompt written, and no run of it ever displays a
  room. In the array-traversal script the line 14 is indented deeper than the line 13,
  which opens no block: the layout check fails there with an unexpected indent, so the
  file is rejected and none of it, the validation included, runs.
\<close>

theorem exercises_defective:
  "dispatch move out = Inl TypeError
   \<and> mystery_mansion (name # move # rest)
       = (TypeError, mansion_banner name @ [Prompt move_prompt])
   \<and> \<not> list_ex displays_room (snd (mystery_mansion ins))
   \<and> check_layout traversing_task traversing_task_first_line [0] False
       = Some (UnexpectedIndent, 14)"
proof -
  have "\<not> list_ex displays_room (snd (mystery_mansion ins))"
    by (cases ins) (simp_all add: mystery_mansion_def command_loop_shows_no_room
        banner_shows_no_room)
  then show ?thesis
    by (simp add: dispatch_raises mystery_mansion_def command_loop_raises
        traversing_task_layout)
qed

section \<open>Racing demo: projection\<close>

lemma project_cases:
  "project_3d_to_2d px py pz cam_x cam_y cam_z cam_angle =
     (if rotated_depth px pz cam_x cam_z cam_angle \<le> 1 / 2 then None
      else if on_screen (screen_x px pz cam_x cam_z cam_angle)
                (screen_y px py pz cam_x cam_y cam_z cam_angle)
      then Some (py_int (screen_x px pz cam_x cam_z cam_angle),
                 py_int (screen_y px py pz cam_x cam_y cam_z cam_angle))
      else None)"
  by (simp only: project_3d_to_2d_def rotated_depth_def on_screen_def screen_x_def screen_y_def
      rotated_side_def focal_length_def Let_def)

lemma py_int_on_screen:
  assumes "on_screen sx sy"
  shows "py_int sx = \<lfloor>sx\<rfloor>" "py_int sy = \<lfloor>sy\<rfloor>"
        "0 \<le> \<lfloor>sx\<rfloor>" "\<lfloor>sx\<rfloor> < 1400" "0 \<le> \<lfloor>sy\<rfloor>" "\<lfloor>sy\<rfloor> < 900"
  using assms
  by (simp_all add: on_screen_def py_int_def SCREEN_WIDTH_def SCREEN_HEIGHT_def floor_less_iff)

text \<open>
  Claim C3. \<open>project_3d_to_2d\<close> returns \<open>None\<close> whenever the rotated depth is at most
  0.5, and whenever the projected coordinates are off the screen. It returns
  coordinates only for a point deeper than 0.5 that lands on the screen; they are the
  integer parts of the projected coordinates and lie within 0..1399 and 0..899.
\<close>

theorem projection_visibility:
  "(rotated_depth px pz cam_x cam_z cam_angle \<le> 1 / 2
      \<longrightarrow> project_3d_to_2d px py pz cam_x cam_y cam_z cam_angle = None)
   \<and> (\<not> on_screen (screen_x px pz cam_x cam_z cam_angle)
                    (screen_y px py pz cam_x cam_y cam_z cam_angle)
      \<longrightarrow> project_3d_to_2d px py pz cam_x cam_y cam_z cam_angle = None)
   \<and> (1 / 2 < rotated_depth px pz cam_x cam_z cam_angle
       \<and> on_screen (screen_x px pz cam_x cam_z cam_angle)
                   (screen_y px py pz cam_x cam_y cam_z cam_angle)
      \<longrightarrow> project_3d_to_2d px py pz cam_x cam_y cam_z cam_angle
            = Some (\<lfloor>screen_x px pz cam_x cam_z cam_angle\<rfloor>,
                    \<lfloor>screen_y px py pz cam_x cam_y cam_z cam_angle\<rfloor>))
   \<and> (\<forall>sx sy. project_3d_to_2d px py pz cam_x cam_y cam_z cam_angle = Some (sx, sy)
      \<longrightarrow> 1 / 2 < rotated_depth px pz cam_x cam_z cam_angle
          \<and> 0 \<le> sx \<and> sx < 1400 \<and> 0 \<le> sy \<and> sy < 900)"
  using py_int_on_screen [of "screen_x px pz cam_x cam_z cam_angle"
                             "screen_y px py pz cam_x cam_y cam_z cam_angle"]
  by (auto simp add: project_cases split: if_splits)

lemma focal_length_value: "focal_length = 700 * sqrt 3"
proof -
  have r: "radians (60 / 2) = pi / 6" unfolding radians_def by simp
  show ?thesis unfolding focal_length_def SCREEN_WIDTH_def r tan_30 by simp
qed

lemma radians_0: "radians 0 = 0" by (simp add: radians_def)

theorem projection_visibility_witness:
  "project_3d_to_2d 0 0 (- 5) 0 0 0 0 = None
   \<and> project_3d_to_2d 100 0 1 0 0 0 0 = None
   \<and> project_3d_to_2d 0 0 10 0 0 0 0 = Some (700, 450)
   \<and> 1 / 2 < rotated_depth 0 10 0 0 0"
proof -
  have behind: "rotated_depth 0 (- 5) 0 0 0 \<le> 1 / 2"
    by (simp add: rotated_depth_def radians_0)
  have "1 \<le> sqrt 3" by simp
  then have "1400 \<le> 700 + 100 * (700 * sqrt 3)" by linarith
  then have off: "\<not> on_screen (screen_x 100 1 0 0 0) (screen_y 100 0 1 0 0 0 0)"
    by (simp add: on_screen_def screen_x_def rotated_side_def rotated_depth_def radians_0
        focal_length_value SCREEN_WIDTH_def)
  have front: "1 / 2 < rotated_depth 0 10 0 0 0"
    by (simp add: rotated_depth_def radians_0)
  have sx: "screen_x 0 10 0 0 0 = 700" and sy: "screen_y 0 0 10 0 0 0 0 = 450"
    by (simp_all add: screen_x_def screen_y_def rotated_side_def rotated_depth_def radians_0
        SCREEN_WIDTH_def SCREEN_HEIGHT_def)
  have on: "on_screen (screen_x 0 10 0 0 0) (screen_y 0 0 10 0 0 0 0)"
    by (simp add: sx sy on_screen_def SCREEN_WIDTH_def SCREEN_HEIGHT_def)
  from projection_visibility
         [where px = 0 and py = 0 and pz = "- 5" and cam_x = 0 and cam_y = 0 and cam_z = 0 and cam_angle = 0] behind
  have 1: "project_3d_to_2d 0 0 (- 5) 0 0 0 0 = None" by blast
  from projection_visibility
         [where px = 100 and py = 0 and pz = "1" and cam_x = 0 and cam_y = 0 and cam_z = 0 and cam_angle = 0] off
  have 2: "project_3d_to_2d 100 0 1 0 0 0 0 = None" by blast
  from projection_visibility
         [where px = 0 and py = 0 and pz = "10" and cam_x = 0 and cam_y = 0 and cam_z = 0 and cam_angle = 0] front on
  have "project_3d_to_2d 0 0 10 0 0 0 0
          = Some (\<lfloor>screen_x 0 10 0 0 0\<rfloor>, \<lfloor>screen_y 0 0 10 0 0 0 0\<rfloor>)" by blast
  then have 3: "project_3d_to_2d 0 0 10 0 0 0 0 = Some (700, 450)" by (simp add: sx sy)
  from projection_visibility
         [where px = 0 and py = 0 and pz = "10" and cam_x = 0 and cam_y = 0 and cam_z = 0 and cam_angle = 0]
       3
  have 4: "1 / 2 < rotated_depth 0 10 0 0 0" by blast
  from 1 2 3 4 show ?thesis by blast
qed

section \<open>Racing demo: steering\<close>

lemma turn_amount_add_thrust [simp]: "turn_amount (add_thrust f r k c) = turn_amount c"
  by (simp add: turn_amount_def add_thrust_def)

lemma turn_amount_scale_velocity [simp]: "turn_amount (scale_velocity r c) = turn_amount c"
  by (simp add: turn_amount_def scale_velocity_def)

lemma turn_amount_turn [simp]: "turn_amount (turn d c) = turn_amount c"
  by (simp add: turn_amount_def turn_def)

lemma turn_amount_is_reversing [simp]: "turn_amount (c\<lparr>is_reversing := b\<rparr>) = turn_amount c"
  by (simp add: turn_amount_def)

lemma angle_yaw_add_thrust [simp]: "angle_yaw (add_thrust f r k c) = angle_yaw c"
  by (simp add: add_thrust_def)

lemma angle_yaw_scale_velocity [simp]: "angle_yaw (scale_velocity r c) = angle_yaw c"
  by (simp add: scale_velocity_def)

lemma angle_yaw_turn [simp]: "angle_yaw (turn d c) = angle_yaw c + d"
  by (simp add: turn_def)

lemma angle_yaw_cap_speed [simp]: "angle_yaw (cap_speed c) = angle_yaw c"
  by (simp add: cap_speed_def Let_def)

lemma update_player_input_heading:
  "angle_yaw (update_player_input keys dt c) =
     py_fmod (angle_yaw c
              - (if K_a keys \<or> K_LEFT keys then turn_amount c else 0)
              + (if K_d keys \<or> K_RIGHT keys then turn_amount c else 0)) 360"
  by (simp add: update_player_input_def Let_def)

lemma turn_amount_mono:
  assumes "max_speed c1 = max_speed c2" "speed c1 \<le> speed c2"
  shows "turn_amount c1 \<le> turn_amount c2"
proof -
  have "0 < max (max_speed c2) 1" by simp
  with assms show ?thesis
    by (simp add: turn_amount_def divide_right_mono)
qed

text \<open>
  Claim C5, as amended. \<open>update_player_input\<close> turns the heading by
  \<open>5 * (speed / max(max_speed, 1))\<close> degrees, to the left for the left keys and to the
  right for the right keys, modulo 360. For cars of the same maximum speed the turn
  grows with the speed: the faster car never turns less.
\<close>

theorem steering_rule:
  "angle_yaw (update_player_input keys dt c) =
     py_fmod (angle_yaw c
              - (if K_a keys \<or> K_LEFT keys then turn_amount c else 0)
              + (if K_d keys \<or> K_RIGHT keys then turn_amount c else 0)) 360
   \<and> turn_amount c = 5 * (speed c / max (max_speed c) 1)
   \<and> (max_speed c1 = max_speed c2 \<and> speed c1 \<le> speed c2
        \<longrightarrow> turn_amount c1 \<le> turn_amount c2)"
  using turn_amount_mono [of c1 c2]
  by (simp add: update_player_input_heading) (simp add: turn_amount_def)

lemma turn_amount_cruising: "turn_amount (cruising_car v) = v / 48"
  by (simp add: turn_amount_def cruising_car_def Car3D_init_def)

lemma cruising_fields:
  "angle_yaw (cruising_car v) = 90" "speed (cruising_car v) = v"
  "max_speed (cruising_car v) = 240"
  by (simp_all add: cruising_car_def Car3D_init_def)

lemma steer_left_keys_fields:
  "K_a steer_left_keys" "\<not> K_d steer_left_keys" "\<not> K_RIGHT steer_left_keys"
  by (simp_all add: steer_left_keys_def no_keys_def)

lemma heading_slow:
  "angle_yaw (update_player_input steer_left_keys dt (cruising_car 60)) = 355 / 4"
  by (simp add: update_player_input_heading steer_left_keys_fields turn_amount_cruising
      cruising_fields py_fmod_def)

lemma heading_fast:
  "angle_yaw (update_player_input steer_left_keys dt (cruising_car 120)) = 175 / 2"
  by (simp add: update_player_input_heading steer_left_keys_fields turn_amount_cruising
      cruising_fields py_fmod_def)

theorem steering_rule_witness:
  "angle_yaw (update_player_input steer_left_keys (16 / 1000) (cruising_car 60)) = 355 / 4
   \<and> turn_amount (cruising_car 60) \<le> turn_amount (cruising_car 120)"
proof -
  have "max_speed (cruising_car 60) = max_speed (cruising_car 120)"
       "speed (cruising_car 60) \<le> speed (cruising_car 120)"
    by (simp_all add: cruising_fields)
  with steering_rule [of steer_left_keys "16 / 1000" "cruising_car 60"
                         "cruising_car 60" "cruising_car 120"]
  show ?thesis
    by (simp add: steer_left_keys_fields turn_amount_cruising cruising_fields py_fmod_def)
qed

text \<open>
  Claim C5 as stated fails. Of two sports cars that differ in speed only (60 and 120,
  with the velocity that goes with it), with the left key held for one frame, the
  slower one turns by 1.25 degrees and the faster one by 2.5 degrees.
\<close>

theorem faster_turns_more_counterexample:
  "speed (cruising_car 60) < speed (cruising_car 120)
   \<and> \<bar>angle_yaw (update_player_input steer_left_keys (16 / 1000) (cruising_car 60))
        - angle_yaw (cruising_car 60)\<bar> = 5 / 4
   \<and> \<bar>angle_yaw (update_player_input steer_left_keys (16 / 1000) (cruising_car 120))
        - angle_yaw (cruising_car 120)\<bar> = 5 / 2"
  by (simp add: heading_slow heading_fast cruising_fields)

section \<open>Racing demo: the speed cap\<close>

lemma integrate_speed:
  "speed (integrate tr dt c) =
     sqrt ((vec_x (velocity c) * (97 / 100))\<^sup>2 + (vec_z (velocity c) * (97 / 100))\<^sup>2)"
  by (simp add: integrate_def Let_def check_checkpoint_def update_track_height_def
      scale_velocity_def)

lemma integrate_max_speed: "max_speed (integrate tr dt c) = max_speed c"
  by (simp add: integrate_def Let_def check_checkpoint_def update_track_height_def
      scale_velocity_def)

lemma player_thrust_from_rest:
  "velocity (update_player_input accelerate_keys dt (Car3D_init px py pz SPORTS True))
     = \<lparr>vec_x = 600, vec_y = 0, vec_z = 0\<rparr>
   \<and> max_speed (update_player_input accelerate_keys dt (Car3D_init px py pz SPORTS True)) = 240"
  by (simp add: update_player_input_def Let_def accelerate_keys_def no_keys_def Car3D_init_def
      add_thrust_def cap_speed_def radians_def)


lemma update_ai_from_rest:
  assumes "2 \<le> length tr"
  shows "\<exists>c1 a. update_ai tr dt (Car3D_init px py pz SUPERCAR False) = Inr c1
           \<and> velocity c1 = \<lparr>vec_x = cos a * 480, vec_y = 0, vec_z = sin a * 480\<rparr>
           \<and> max_speed c1 = 300"
proof -
  let ?c0 = "Car3D_init px py pz SUPERCAR False"
  let ?k = "min (last_checkpoint ?c0 + 8) (int (length tr) - 1)"
  have l0: "last_checkpoint ?c0 = 0" by (simp add: Car3D_init_def)
  have "0 \<le> ?k \<and> ?k < int (length tr)" using assms unfolding l0 by linarith
  then have idx: "py_index tr ?k = Inr (tr ! nat ?k)" by (simp add: py_index_def)
  have len: "\<not> length tr < 2" using assms by simp
  show ?thesis
    by (simp add: update_ai_def len idx Let_def del: min_less_iff_conj)
       (auto simp add: Car3D_init_def add_thrust_def cap_speed_def turn_def)
qed

lemma thrust_magnitude: "sqrt ((cos a * k)\<^sup>2 + (sin a * k)\<^sup>2) = \<bar>k\<bar>"
proof -
  have "(cos a * k)\<^sup>2 + (sin a * k)\<^sup>2 = ((cos a)\<^sup>2 + (sin a)\<^sup>2) * k\<^sup>2"
    unfolding power_mult_distrib by (simp only: distrib_right)
  also have "\<dots> = k\<^sup>2" by simp
  finally show ?thesis by simp
qed

lemma ai_thrust_from_rest_exceeds:
  assumes "2 \<le> length tr"
  shows "\<exists>c'. update tr None dt (Car3D_init px py pz SUPERCAR False) = Inr c'
           \<and> speed c' = 2328 / 5 \<and> max_speed c' = 300"
proof -
  let ?c0 = "Car3D_init px py pz SUPERCAR False"
  from update_ai_from_rest [OF assms, of dt px py pz] obtain c1 a where
    c1: "update_ai tr dt ?c0 = Inr c1"
    and v: "velocity c1 = \<lparr>vec_x = cos a * 480, vec_y = 0, vec_z = sin a * 480\<rparr>"
    and m: "max_speed c1 = 300" by blast
  have nf: "\<not> finished ?c0" by (simp add: Car3D_init_def)
  have u: "update tr None dt ?c0 = Inr (integrate tr dt c1)"
    by (simp add: update_def control_def nf c1)
  have e1: "speed (integrate tr dt c1)
              = sqrt ((cos a * 480 * (97 / 100))\<^sup>2 + (sin a * 480 * (97 / 100))\<^sup>2)"
    by (simp only: integrate_speed v Vector3.select_convs)
  have e2: "cos a * 480 * (97 / 100) = cos a * (2328 / 5)"
           "sin a * 480 * (97 / 100) = sin a * (2328 / 5)"
    by simp_all
  have s: "speed (integrate tr dt c1) = 2328 / 5"
    unfolding e1 e2 thrust_magnitude by simp
  from u s m show ?thesis by (simp add: integrate_max_speed)
qed

text \<open>
  Claim C1, at a failing input. A sports car (maximum speed 240) at rest whose player
  holds the accelerate key ends its first frame with speed 582: the cap compares the
  speed of the frame before, which is 0, and friction takes only 3 percent. An AI
  supercar (maximum speed 300) at rest on a track ends its first frame with speed 465.6
  in the same way.
\<close>

theorem speed_cap_missed:
  "(\<exists>c'. update tr (Some accelerate_keys) dt (Car3D_init px py pz SPORTS True) = Inr c'
        \<and> speed c' = 582 \<and> max_speed c' = 240)
   \<and> (\<exists>c'. update (line_track 100) None dt (Car3D_init px py pz SUPERCAR False) = Inr c'
        \<and> speed c' = 2328 / 5 \<and> max_speed c' = 300)"
proof -
  let ?c0 = "Car3D_init px py pz SPORTS True"
  have nf: "\<not> finished ?c0" and pl: "is_player ?c0" by (simp_all add: Car3D_init_def)
  have u: "update tr (Some accelerate_keys) dt ?c0
             = Inr (integrate tr dt (update_player_input accelerate_keys dt ?c0))"
    by (simp add: update_def control_def nf pl)
  have s: "speed (integrate tr dt (update_player_input accelerate_keys dt ?c0)) = 582"
    by (simp add: integrate_speed player_thrust_from_rest)
  have m: "max_speed (integrate tr dt (update_player_input accelerate_keys dt ?c0)) = 240"
    by (simp add: integrate_max_speed player_thrust_from_rest)
  have "2 \<le> length (line_track 100)" by (simp add: line_track_def)
  from ai_thrust_from_rest_exceeds [OF this] u s m show ?thesis by blast
qed

section \<open>Racing demo: track generation\<close>

lemma index_of_mem: "v \<in> set xs \<Longrightarrow> \<exists>k. index_of xs v = Inr k \<and> k < length xs"
  by (induction xs) auto

lemma py_index_nat: "k < length xs \<Longrightarrow> py_index xs (int k) = Inr (xs ! k)"
  by (simp add: py_index_def)

lemma barrier_loop_lists:
  assumes "set rest \<subseteq> set all"
    and "left_barriers t1 = left_barriers t2" and "right_barriers t1 = right_barriers t2"
  shows "\<exists>u1 u2. barrier_loop all rest t1 = Inr u1 \<and> barrier_loop all rest t2 = Inr u2
           \<and> points u1 = points t1 \<and> points u2 = points t2
           \<and> left_barriers u1 = left_barriers u2 \<and> right_barriers u1 = right_barriers u2"
  using assms
proof (induction rest arbitrary: t1 t2)
  case Nil
  then show ?case by simp
next
  case (Cons point rest)
  from Cons.prems(1) have mem: "point \<in> set all" and sub: "set rest \<subseteq> set all" by simp_all
  from index_of_mem [OF mem] obtain idx where idx: "index_of all point = Inr idx" by blast
  from mem have "0 < length all" by (cases all) simp_all
  then have "(idx + 1) mod length all < length all" by simp
  from py_index_nat [OF this]
  have nxt: "py_index all (int ((idx + 1) mod length all))
               = Inr (all ! ((idx + 1) mod length all))" .
  let ?next = "all ! ((idx + 1) mod length all)"
  let ?dx = "vec_x ?next - vec_x point" and ?dz = "vec_z ?next - vec_z point"
  let ?dist = "sqrt (?dx * ?dx + ?dz * ?dz)"
  let ?l = "\<lparr>vec_x = vec_x point + - ?dz / ?dist * barrier_offset, vec_y = vec_y point,
             vec_z = vec_z point + ?dx / ?dist * barrier_offset\<rparr>"
  let ?r = "\<lparr>vec_x = vec_x point - - ?dz / ?dist * barrier_offset, vec_y = vec_y point,
             vec_z = vec_z point - ?dx / ?dist * barrier_offset\<rparr>"
  have step: "barrier_loop all (point # rest) t =
                (if ?dist > 0
                 then barrier_loop all rest
                        (t\<lparr>left_barriers := left_barriers t @ [?l],
                           right_barriers := right_barriers t @ [?r]\<rparr>)
                 else barrier_loop all rest t)" for t :: "'z Track3D_scheme"
    by (simp only: barrier_loop.simps idx nxt sum.case Let_def)
  show ?case
  proof (cases "?dist > 0")
    case False
    from Cons.IH [OF sub Cons.prems(2) Cons.prems(3)] False show ?thesis
      unfolding step by simp
  next
    case True
    let ?t1 = "t1\<lparr>left_barriers := left_barriers t1 @ [?l],
                   right_barriers := right_barriers t1 @ [?r]\<rparr>"
    let ?t2 = "t2\<lparr>left_barriers := left_barriers t2 @ [?l],
                   right_barriers := right_barriers t2 @ [?r]\<rparr>"
    have l: "left_barriers ?t1 = left_barriers ?t2" and r: "right_barriers ?t1 = right_barriers ?t2"
      using Cons.prems(2,3) by simp_all
    from Cons.IH [OF sub l r] True show ?thesis
      unfolding step by simp
  qed
qed

lemma first_loop_points:
  "foldl (\<lambda>ps i. ps @ [track_point i]) ps0 [0..<n] = ps0 @ map track_point [0..<n]"
  by (induction n) simp_all

text \<open>
  Claim C6. \<open>generate_track\<close> never raises, and what it produces is a function of the
  three lists it starts from: two track objects that agree on them, whatever else they
  hold, end with the same points, the same left barriers and the same right barriers.
  The points appended are \<open>track_point 0\<close>, ..., \<open>track_point 199\<close>; the constructor,
  which starts from empty lists, yields exactly these 200 points.
\<close>

theorem track_generation_deterministic:
  "(points t1 = points t2 \<and> left_barriers t1 = left_barriers t2
      \<and> right_barriers t1 = right_barriers t2
    \<longrightarrow> (\<exists>u1 u2. generate_track t1 = Inr u1 \<and> generate_track t2 = Inr u2
           \<and> points u1 = points t1 @ map track_point [0..<segments]
           \<and> points u2 = points u1
           \<and> left_barriers u2 = left_barriers u1
           \<and> right_barriers u2 = right_barriers u1))
   \<and> (\<exists>t. Track3D_init = Inr t \<and> points t = map track_point [0..<segments]
           \<and> length (points t) = 200)"
proof -
  have gen: "\<exists>u1 u2. generate_track t1 = Inr u1 \<and> generate_track t2 = Inr u2
           \<and> points u1 = points t1 @ map track_point [0..<segments]
           \<and> points u2 = points u1
           \<and> left_barriers u2 = left_barriers u1
           \<and> right_barriers u2 = right_barriers u1"
    if p: "points t1 = points t2" and l: "left_barriers t1 = left_barriers t2"
      and r: "right_barriers t1 = right_barriers t2"
    for t1 :: "'x Track3D_scheme" and t2 :: "'y Track3D_scheme"
  proof -
    let ?ps = "points t1 @ map track_point [0..<segments]"
    let ?a = "t1\<lparr>points := ?ps\<rparr>" and ?b = "t2\<lparr>points := ?ps\<rparr>"
    have g1: "generate_track t1 = barrier_loop ?ps ?ps ?a"
      by (simp add: generate_track_def Let_def first_loop_points)
    have g2: "generate_track t2 = barrier_loop ?ps ?ps ?b"
      by (simp add: generate_track_def Let_def first_loop_points p [symmetric])
    have "left_barriers ?a = left_barriers ?b" "right_barriers ?a = right_barriers ?b"
      using l r by simp_all
    with barrier_loop_lists [of ?ps ?ps ?a ?b]
    show ?thesis unfolding g1 g2 by auto
  qed
  let ?e = "\<lparr>points = [], left_barriers = [], right_barriers = []\<rparr>"
  from gen [of ?e ?e] have "\<exists>t. Track3D_init = Inr t \<and> points t = map track_point [0..<segments]"
    by (auto simp add: Track3D_init_def)
  then have "\<exists>t. Track3D_init = Inr t \<and> points t = map track_point [0..<segments]
           \<and> length (points t) = 200"
    by (auto simp add: segments_def)
  with gen show ?thesis by blast
qed

theorem track_generation_deterministic_witness:
  "\<exists>u1 u2. generate_track \<lparr>points = [], left_barriers = [], right_barriers = []\<rparr> = Inr u1
     \<and> generate_track \<lparr>points = [], left_barriers = [], right_barriers = [], \<dots> = True\<rparr> = Inr u2
     \<and> length (points u1) = 200
     \<and> points u2 = points u1
     \<and> left_barriers u2 = left_barriers u1
     \<and> right_barriers u2 = right_barriers u1"
  using track_generation_deterministic
          [of "\<lparr>points = [], left_barriers = [], right_barriers = []\<rparr>"
              "\<lparr>points = [], left_barriers = [], right_barriers = [], \<dots> = True\<rparr>"]
  by (auto simp add: segments_def)

section \<open>Racing demo: game modes\<close>

lemma spawn_ai_value:
  "spawn_ai pts [(0, 10), (1, 20), (2, 30)] [] =
     Inr ((if 10 < length pts
           then [Car3D_init (vec_x (pts ! 10)) (vec_y (pts ! 10)) (vec_z (pts ! 10))
                   SUPERCAR False] else [])
          @ (if 20 < length pts
             then [Car3D_init (vec_x (pts ! 20)) (vec_y (pts ! 20)) (vec_z (pts ! 20))
                     MUSCLE False] else [])
          @ (if 30 < length pts
             then [Car3D_init (vec_x (pts ! 30)) (vec_y (pts ! 30)) (vec_z (pts ! 30))
                     ECONOMY False] else []))"
  by (simp add: py_index_def)

lemma setup_game_value:
  "setup_game g =
     Inr (if points (track g) = [] then g
          else g\<lparr>player := Some (Car3D_init (vec_x (points (track g) ! 0))
                                    (vec_y (points (track g) ! 0))
                                    (vec_z (points (track g) ! 0)) SPORTS True),
                 ai_cars :=
                   (if 10 < length (points (track g))
                    then [Car3D_init (vec_x (points (track g) ! 10))
                            (vec_y (points (track g) ! 10))
                            (vec_z (points (track g) ! 10)) SUPERCAR False] else [])
                   @ (if 20 < length (points (track g))
                      then [Car3D_init (vec_x (points (track g) ! 20))
                              (vec_y (points (track g) ! 20))
                              (vec_z (points (track g) ! 20)) MUSCLE False] else [])
                   @ (if 30 < length (points (track g))
                      then [Car3D_init (vec_x (points (track g) ! 30))
                              (vec_y (points (track g) ! 30))
                              (vec_z (points (track g) ! 30)) ECONOMY False] else [])\<rparr>)"
proof (cases "points (track g) = []")
  case True
  then show ?thesis by (simp add: setup_game_def)
next
  case False
  then have i: "py_index (points (track g)) 0 = Inr (points (track g) ! 0)"
    by (simp add: py_index_def)
  from False show ?thesis
    unfolding setup_game_def i spawn_ai_value by simp
qed

lemma setup_game_track: "setup_game g = Inr g' \<Longrightarrow> track g' = track g \<and> state g' = state g"
  unfolding setup_game_value by (auto split: if_splits)

lemma handle_event_track: "handle_event ev g = Inr g' \<Longrightarrow> track g' = track g"
  by (cases ev) (auto simp add: handle_event_def split: if_splits dest: setup_game_track)

lemma Game3D_update_track: "Game3D_update keys dt g = Inr g' \<Longrightarrow> track g' = track g"
  by (auto simp add: Game3D_update_def Let_def split: if_splits option.splits sum.splits)

lemma Track3D_init_length: "\<exists>t. Track3D_init = Inr t \<and> length (points t) = 200"
proof -
  let ?e = "\<lparr>points = [], left_barriers = [], right_barriers = []\<rparr>"
  let ?ps = "map track_point [0..<segments]"
  have g: "Track3D_init = barrier_loop ?ps ?ps (?e\<lparr>points := ?ps\<rparr>)"
    by (simp add: Track3D_init_def generate_track_def Let_def first_loop_points)
  from barrier_loop_lists [of ?ps ?ps "?e\<lparr>points := ?ps\<rparr>" "?e\<lparr>points := ?ps\<rparr>"]
  obtain u where u: "barrier_loop ?ps ?ps (?e\<lparr>points := ?ps\<rparr>) = Inr u"
    and pu: "points u = ?ps" by auto
  from pu have "length (points u) = 200" by (simp add: segments_def)
  moreover from g u have "Track3D_init = Inr u" by simp
  ultimately show ?thesis by blast
qed

lemma Game3D_init_value:
  "\<exists>g0. Game3D_init = Inr g0 \<and> state g0 = ''menu'' \<and> length (points (track g0)) = 200
         \<and> length (ai_cars g0) = 3"
proof -
  from Track3D_init_length obtain t where t: "Track3D_init = Inr t"
    and n: "length (points t) = 200" by blast
  from n have "points t \<noteq> []" by auto
  with n show ?thesis
    unfolding Game3D_init_def t setup_game_value by simp
qed

lemma racing_update:
  assumes "state g = ''racing''" and "Game3D_update keys dt g = Inr g'"
  shows "\<exists>p. player g' = Some p \<and> state g' = (if finished p then ''finish'' else ''racing'')"
  using assms
  by (auto simp add: Game3D_update_def Let_def split: option.splits sum.splits if_splits)

text \<open>
  Claim C7, as amended. SPACE in the menu starts the race, and this transition is the
  one that resets the session: on a track with points the player becomes a new sports
  car at the first track point and the AI cars become a new supercar, muscle car and
  economy car at the track points 10, 20 and 30 (those the track has), whatever the
  cars were before; a new car stands at its point with heading 0, at rest, with no
  lap, no checkpoint and not finished. A frame of a race ends in the finish mode
  exactly when the player has finished, and a frame in any other mode changes nothing.
  SPACE in the finish mode sets the mode to menu and changes nothing else. The game
  starts in the menu on the generated track of 200 points with three AI cars, and no
  event and no frame changes the track.
\<close>

theorem game_mode_transitions:
  "(state g = ''menu''
      \<longrightarrow> handle_event (KEYDOWN K_SPACE) g =
            Inr (if points (track g) = [] then g\<lparr>state := ''racing''\<rparr>
                 else g\<lparr>state := ''racing'',
                        player := Some (Car3D_init (vec_x (points (track g) ! 0))
                                           (vec_y (points (track g) ! 0))
                                           (vec_z (points (track g) ! 0)) SPORTS True),
                        ai_cars :=
                          (if 10 < length (points (track g))
                           then [Car3D_init (vec_x (points (track g) ! 10))
                                   (vec_y (points (track g) ! 10))
                                   (vec_z (points (track g) ! 10)) SUPERCAR False] else [])
                          @ (if 20 < length (points (track g))
                             then [Car3D_init (vec_x (points (track g) ! 20))
                                     (vec_y (points (track g) ! 20))
                                     (vec_z (points (track g) ! 20)) MUSCLE False] else [])
                          @ (if 30 < length (points (track g))
                             then [Car3D_init (vec_x (points (track g) ! 30))
                                     (vec_y (points (track g) ! 30))
                                     (vec_z (points (track g) ! 30)) ECONOMY False]
                             else [])\<rparr>))
   \<and> (pos (Car3D_init px py pz cls pl) = \<lparr>vec_x = px, vec_y = py, vec_z = pz\<rparr>
       \<and> velocity (Car3D_init px py pz cls pl) = \<lparr>vec_x = 0, vec_y = 0, vec_z = 0\<rparr>
       \<and> angle_yaw (Car3D_init px py pz cls pl) = 0
       \<and> speed (Car3D_init px py pz cls pl) = 0
       \<and> lap_count (Car3D_init px py pz cls pl) = 0
       \<and> last_checkpoint (Car3D_init px py pz cls pl) = 0
       \<and> \<not> finished (Car3D_init px py pz cls pl)
       \<and> distance_traveled (Car3D_init px py pz cls pl) = 0
       \<and> car_class (Car3D_init px py pz cls pl) = cls
       \<and> is_player (Car3D_init px py pz cls pl) = pl)
   \<and> (state g = ''racing''
      \<longrightarrow> (\<forall>g'. Game3D_update keys dt g = Inr g'
             \<longrightarrow> (\<exists>p. player g' = Some p
                      \<and> state g' = (if finished p then ''finish'' else ''racing''))))
   \<and> (state g \<noteq> ''racing'' \<longrightarrow> Game3D_update keys dt g = Inr g)
   \<and> (state g = ''finish''
      \<longrightarrow> handle_event (KEYDOWN K_SPACE) g = Inr (g\<lparr>state := ''menu''\<rparr>))
   \<and> (\<exists>g0. Game3D_init = Inr g0 \<and> state g0 = ''menu'' \<and> length (points (track g0)) = 200
            \<and> length (ai_cars g0) = 3)
   \<and> (\<forall>g'. handle_event ev g = Inr g' \<longrightarrow> track g' = track g)
   \<and> (\<forall>g'. Game3D_update keys dt g = Inr g' \<longrightarrow> track g' = track g)"
proof -
  have menu: "handle_event (KEYDOWN K_SPACE) g = setup_game (g\<lparr>state := ''racing''\<rparr>)"
    if "state g = ''menu''"
    using that by (simp add: handle_event_def)
  have fresh: "pos (Car3D_init px py pz cls pl) = \<lparr>vec_x = px, vec_y = py, vec_z = pz\<rparr>
       \<and> velocity (Car3D_init px py pz cls pl) = \<lparr>vec_x = 0, vec_y = 0, vec_z = 0\<rparr>
       \<and> angle_yaw (Car3D_init px py pz cls pl) = 0
       \<and> speed (Car3D_init px py pz cls pl) = 0
       \<and> lap_count (Car3D_init px py pz cls pl) = 0
       \<and> last_checkpoint (Car3D_init px py pz cls pl) = 0
       \<and> \<not> finished (Car3D_init px py pz cls pl)
       \<and> distance_traveled (Car3D_init px py pz cls pl) = 0
       \<and> car_class (Car3D_init px py pz cls pl) = cls
       \<and> is_player (Car3D_init px py pz cls pl) = pl"
    by (simp add: Car3D_init_def Let_def)
  have fin: "handle_event (KEYDOWN K_SPACE) g = Inr (g\<lparr>state := ''menu''\<rparr>)"
    if "state g = ''finish''"
    using that by (simp add: handle_event_def)
  have idle: "Game3D_update keys dt g = Inr g" if "state g \<noteq> ''racing''"
    using that by (simp add: Game3D_update_def)
  have reset: "state g = ''menu'' \<longrightarrow> handle_event (KEYDOWN K_SPACE) g =
            Inr (if points (track g) = [] then g\<lparr>state := ''racing''\<rparr>
                 else g\<lparr>state := ''racing'',
                        player := Some (Car3D_init (vec_x (points (track g) ! 0))
                                           (vec_y (points (track g) ! 0))
                                           (vec_z (points (track g) ! 0)) SPORTS True),
                        ai_cars :=
                          (if 10 < length (points (track g))
                           then [Car3D_init (vec_x (points (track g) ! 10))
                                   (vec_y (points (track g) ! 10))
                                   (vec_z (points (track g) ! 10)) SUPERCAR False] else [])
                          @ (if 20 < length (points (track g))
                             then [Car3D_init (vec_x (points (track g) ! 20))
                                     (vec_y (points (track g) ! 20))
                                     (vec_z (points (track g) ! 20)) MUSCLE False] else [])
                          @ (if 30 < length (points (track g))
                             then [Car3D_init (vec_x (points (track g) ! 30))
                                     (vec_y (points (track g) ! 30))
                                     (vec_z (points (track g) ! 30)) ECONOMY False]
                             else [])\<rparr>)"
    using menu unfolding setup_game_value by simp
  from reset fresh fin idle racing_update [of g keys dt] Game3D_init_value
       handle_event_track [of ev g] Game3D_update_track [of keys dt g]
  show ?thesis by blast
qed

text \<open>
  Claim C7 as stated fails. After SPACE in the finish mode the game is in the menu
  with the finished player as it was: three laps counted, \<open>finished\<close> set.
\<close>

theorem finish_to_menu_keeps_cars_counterexample:
  "handle_events [KEYDOWN K_SPACE] finished_game = Inr (finished_game\<lparr>state := ''menu''\<rparr>)
   \<and> map_option lap_count (player (finished_game\<lparr>state := ''menu''\<rparr>)) = Some 3
   \<and> map_option finished (player (finished_game\<lparr>state := ''menu''\<rparr>)) = Some True"
  by (simp add: handle_event_def finished_game_def)

lemma last_lap_frame:
  "\<exists>g' p. Game3D_update no_keys (16 / 1000) last_lap_game = Inr g' \<and> player g' = Some p
          \<and> finished p"
  by (simp add: Game3D_update_def last_lap_game_def small_track_def last_lap_car_update
      last_lap_car_finishes)

lemma line_track_nth: "k < n \<Longrightarrow> line_track n ! k = on_line (real k)"
  by (simp add: line_track_def on_line_def)

theorem game_mode_transitions_witness:
  "handle_event (KEYDOWN K_SPACE) stale_menu_game
     = Inr (stale_menu_game
              \<lparr>state := ''racing'',
               player := Some (Car3D_init 0 0 0 SPORTS True),
               ai_cars := [Car3D_init 10 0 0 SUPERCAR False, Car3D_init 20 0 0 MUSCLE False,
                           Car3D_init 30 0 0 ECONOMY False]\<rparr>)
   \<and> (\<exists>g'. Game3D_update no_keys (16 / 1000) last_lap_game = Inr g' \<and> state g' = ''finish''
            \<and> track g' = track last_lap_game)
   \<and> handle_event (KEYDOWN K_SPACE) finished_game = Inr (finished_game\<lparr>state := ''menu''\<rparr>)
   \<and> Game3D_update no_keys (16 / 1000) finished_game = Inr finished_game"
proof -
  have m: "state stale_menu_game = ''menu''"
    and pts: "points (track stale_menu_game) = line_track 100"
    by (simp_all add: stale_menu_game_def)
  have len: "length (line_track 100) = 100" "line_track 100 \<noteq> []"
    by (simp_all add: line_track_def)
  have nth: "line_track 100 ! 0 = on_line 0" "line_track 100 ! 10 = on_line 10"
       "line_track 100 ! 20 = on_line 20" "line_track 100 ! 30 = on_line 30"
    using line_track_nth [of 0 100] line_track_nth [of 10 100] line_track_nth [of 20 100]
          line_track_nth [of 30 100] by simp_all
  have xyz: "vec_x (on_line d) = d" "vec_y (on_line d) = 0" "vec_z (on_line d) = 0" for d
    by (simp_all add: on_line_def)
  have r: "state last_lap_game = ''racing''" by (simp add: last_lap_game_def)
  have f: "state finished_game = ''finish''" by (simp add: finished_game_def)
  have nr: "state finished_game \<noteq> ''racing''" by (simp add: finished_game_def)
  note menu = game_mode_transitions [of stale_menu_game, THEN conjunct1, THEN mp, OF m]
  have 1: "handle_event (KEYDOWN K_SPACE) stale_menu_game
     = Inr (stale_menu_game
              \<lparr>state := ''racing'',
               player := Some (Car3D_init 0 0 0 SPORTS True),
               ai_cars := [Car3D_init 10 0 0 SUPERCAR False, Car3D_init 20 0 0 MUSCLE False,
                           Car3D_init 30 0 0 ECONOMY False]\<rparr>)"
    unfolding menu pts by (simp add: len nth xyz)
  from last_lap_frame obtain g' p where
    g': "Game3D_update no_keys (16 / 1000) last_lap_game = Inr g'"
    and p: "player g' = Some p" "finished p" by blast
  note rest = game_mode_transitions [of last_lap_game _ _ _ _ _ no_keys "16 / 1000",
                THEN conjunct2, THEN conjunct2]
  from rest [THEN conjunct1, THEN mp, OF r, THEN spec, THEN mp, OF g'] p
  have s: "state g' = ''finish''" by auto
  from rest [THEN conjunct2, THEN conjunct2, THEN conjunct2, THEN conjunct2, THEN conjunct2,
             THEN spec, THEN mp, OF g']
  have t: "track g' = track last_lap_game" .
  from g' s t have 2: "\<exists>g'. Game3D_update no_keys (16 / 1000) last_lap_game = Inr g'
                     \<and> state g' = ''finish'' \<and> track g' = track last_lap_game" by blast
  note fing = game_mode_transitions [of finished_game _ _ _ _ _ no_keys "16 / 1000",
                THEN conjunct2, THEN conjunct2, THEN conjunct2]
  from fing [THEN conjunct2, THEN conjunct1, THEN mp, OF f]
  have 3: "handle_event (KEYDOWN K_SPACE) finished_game = Inr (finished_game\<lparr>state := ''menu''\<rparr>)" .
  from fing [THEN conjunct1, THEN mp, OF nr]
  have 4: "Game3D_update no_keys (16 / 1000) finished_game = Inr finished_game" .
  from 1 2 3 4 show ?thesis by (intro conjI)
qed

end
